theory Spec2Isabelle
  imports Main
begin

section \<open>The tables (db/tables.ts)\<close>

text \<open>
  A column declared \<open>optional: true\<close> holds a value or NULL and is an \<open>option\<close>;
  every other column is never NULL. Dates are instants on the clock, JSON payloads are
  opaque to the actions and are kept as their text.
\<close>

type_synonym date = int
type_synonym json = string

record PromptTemplates_row =
  pt_id :: int
  pt_ownerId :: "string option"
  pt_title :: string
  pt_description :: "string option"
  pt_template :: string
  pt_tags :: "string option"
  pt_isActive :: bool
  pt_createdAt :: date
  pt_updatedAt :: date

record GeneratedPrompts_row =
  gp_id :: int
  gp_templateId :: "int option"
  gp_userId :: "string option"
  gp_input :: "json option"
  gp_promptText :: string
  gp_meta :: "json option"
  gp_createdAt :: date

record UserPromptFavorites_row =
  fav_id :: int
  fav_userId :: string
  fav_promptId :: int
  fav_createdAt :: date

datatype job_status = pending | completed | failed

record PromptJobs_row =
  job_id :: int
  job_userId :: "string option"
  job_templateId :: "int option"
  job_input :: "json option"
  job_output :: "json option"
  job_status :: job_status
  job_createdAt :: date

text \<open>
  The database: each table is the list of its rows in insertion order, together with
  the last key its \<open>autoIncrement\<close> primary key handed out.
\<close>

record database =
  PromptTemplates :: "PromptTemplates_row list"
  GeneratedPrompts :: "GeneratedPrompts_row list"
  UserPromptFavorites :: "UserPromptFavorites_row list"
  PromptJobs :: "PromptJobs_row list"
  seq_PromptTemplates :: int
  seq_GeneratedPrompts :: int
  seq_UserPromptFavorites :: int
  seq_PromptJobs :: int

definition empty_db :: database where
  "empty_db = \<lparr>PromptTemplates = [], GeneratedPrompts = [], UserPromptFavorites = [],
     PromptJobs = [], seq_PromptTemplates = 0, seq_GeneratedPrompts = 0,
     seq_UserPromptFavorites = 0, seq_PromptJobs = 0\<rparr>"

text \<open>An auto-incremented key is one more than every key the table holds or has handed out.\<close>

definition nextId :: "int \<Rightarrow> int list \<Rightarrow> int" where
  "nextId last_key ids = fold max ids last_key + 1"

section \<open>The query operators of astro:db\<close>

text \<open>
  \<open>eq\<close>, \<open>and\<close> and \<open>or\<close> are the condition builders of the query library that
  astro:db exports. They build the text of a SQL condition: \<open>eq(a, b)\<close> is the
  comparison \<open>a = b\<close> with \<open>b\<close> bound as a parameter, and it is that comparison also
  when \<open>b\<close> is \<open>null\<close> (the test \<open>a IS NULL\<close> is another builder, \<open>isNull\<close>,
  which the actions do not use). In SQL a comparison with NULL on either side is
  unknown, \<open>AND\<close> and \<open>OR\<close> are the three-valued connectives, and \<open>WHERE\<close>
  selects, updates or deletes the rows on which the condition is true, leaving those on
  which it is false or unknown. A condition's value is a \<open>bool option\<close>, \<open>None\<close>
  being unknown.
\<close>

definition eq_sql :: "'a option \<Rightarrow> 'a option \<Rightarrow> bool option" where
  "eq_sql a b = (case a of None \<Rightarrow> None
                 | Some x \<Rightarrow> (case b of None \<Rightarrow> None | Some y \<Rightarrow> Some (x = y)))"

definition or_sql :: "bool option \<Rightarrow> bool option \<Rightarrow> bool option" where
  "or_sql p q = (if p = Some True \<or> q = Some True then Some True
                 else if p = Some False \<and> q = Some False then Some False
                 else None)"

definition and2_sql :: "bool option \<Rightarrow> bool option \<Rightarrow> bool option" where
  "and2_sql p q = (if p = Some False \<or> q = Some False then Some False
                   else if p = Some True \<and> q = Some True then Some True
                   else None)"

text \<open>\<open>and(...filters)\<close> takes any number of conditions.\<close>

fun and_sql :: "bool option list \<Rightarrow> bool option" where
  "and_sql [] = Some True"
| "and_sql [p] = p"
| "and_sql (p # ps) = and2_sql p (and_sql ps)"

definition select_where :: "('r \<Rightarrow> bool option) \<Rightarrow> 'r list \<Rightarrow> 'r list" where
  "select_where cond rows = filter (\<lambda>r. cond r = Some True) rows"

definition update_where :: "('r \<Rightarrow> bool option) \<Rightarrow> ('r \<Rightarrow> 'r) \<Rightarrow> 'r list \<Rightarrow> 'r list" where
  "update_where cond set_cols rows = map (\<lambda>r. if cond r = Some True then set_cols r else r) rows"

definition delete_where :: "('r \<Rightarrow> bool option) \<Rightarrow> 'r list \<Rightarrow> 'r list" where
  "delete_where cond rows = filter (\<lambda>r. cond r \<noteq> Some True) rows"

definition rowsAffected :: "('r \<Rightarrow> bool option) \<Rightarrow> 'r list \<Rightarrow> nat" where
  "rowsAffected cond rows = length (select_where cond rows)"

section \<open>Errors, the caller and the results of an action\<close>

text \<open>
  The codes of the \<open>ActionError\<close>s the handlers throw, and \<open>BAD_REQUEST\<close> for the
  error \<open>defineAction\<close> raises when the input does not pass the action's schema (the
  spec's ValidationError); that check runs before the handler is called. Messages are
  left out.
\<close>

datatype code = UNAUTHORIZED | NOT_FOUND | FORBIDDEN | BAD_REQUEST

record user =
  user_id :: string

text \<open>The request context, reduced to \<open>context.locals?.user\<close>.\<close>

type_synonym ActionAPIContext = "user option"

text \<open>
  An action returns an error or its data, and the database as it leaves it: a throw
  keeps every write made before it.
\<close>

type_synonym 'a outcome = "(code + 'a) \<times> database"

definition requireUser :: "ActionAPIContext \<Rightarrow> code + user" where
  "requireUser context = (case context of None \<Rightarrow> Inl UNAUTHORIZED | Some u \<Rightarrow> Inr u)"

text \<open>
  In \<open>template.ownerId && template.ownerId !== userId\<close> the left operand is tested
  for truthiness: NULL and the empty string are both falsy.
\<close>

definition truthy :: "string option \<Rightarrow> bool" where
  "truthy s = (case s of None \<Rightarrow> False | Some v \<Rightarrow> v \<noteq> [])"

definition ensureTemplateAccessible :: "database \<Rightarrow> int \<Rightarrow> string \<Rightarrow> code + PromptTemplates_row" where
  "ensureTemplateAccessible db templateId userId =
     (case select_where (\<lambda>r. eq_sql (Some (pt_id r)) (Some templateId)) (PromptTemplates db) of
        [] \<Rightarrow> Inl NOT_FOUND
      | template # _ \<Rightarrow>
          if truthy (pt_ownerId template) \<and> pt_ownerId template \<noteq> Some userId
          then Inl FORBIDDEN
          else Inr template)"

section \<open>Template management\<close>

record createPromptTemplate_input =
  cpt_title :: string
  cpt_description :: "string option"
  cpt_template :: string
  cpt_tags :: "string option"
  cpt_isActive :: "bool option"

definition createPromptTemplate_schema :: "createPromptTemplate_input \<Rightarrow> bool" where
  "createPromptTemplate_schema input \<longleftrightarrow>
     1 \<le> length (cpt_title input) \<and> 1 \<le> length (cpt_template input)"

definition createPromptTemplate_handler ::
  "createPromptTemplate_input \<Rightarrow> ActionAPIContext \<Rightarrow> date \<Rightarrow> database \<Rightarrow> PromptTemplates_row outcome" where
  "createPromptTemplate_handler input context now db =
     (case requireUser context of
        Inl e \<Rightarrow> (Inl e, db)
      | Inr user \<Rightarrow>
          let key = nextId (seq_PromptTemplates db) (map pt_id (PromptTemplates db));
              template = \<lparr>pt_id = key,
                          pt_ownerId = Some (user_id user),
                          pt_title = cpt_title input,
                          pt_description = cpt_description input,
                          pt_template = cpt_template input,
                          pt_tags = cpt_tags input,
                          pt_isActive = (case cpt_isActive input of None \<Rightarrow> True | Some b \<Rightarrow> b),
                          pt_createdAt = now,
                          pt_updatedAt = now\<rparr>
          in (Inr template,
              db\<lparr>PromptTemplates := PromptTemplates db @ [template], seq_PromptTemplates := key\<rparr>))"

definition createPromptTemplate ::
  "createPromptTemplate_input \<Rightarrow> ActionAPIContext \<Rightarrow> date \<Rightarrow> database \<Rightarrow> PromptTemplates_row outcome" where
  "createPromptTemplate input context now db =
     (if createPromptTemplate_schema input then createPromptTemplate_handler input context now db
      else (Inl BAD_REQUEST, db))"


record updatePromptTemplate_input =
  upt_id :: int
  upt_title :: "string option"
  upt_description :: "string option"
  upt_template :: "string option"
  upt_tags :: "string option"
  upt_isActive :: "bool option"

text \<open>The object schema (only \<open>title\<close> has a minimum length), then the \<open>refine\<close> rule.\<close>

definition updatePromptTemplate_schema :: "updatePromptTemplate_input \<Rightarrow> bool" where
  "updatePromptTemplate_schema input \<longleftrightarrow>
     (case upt_title input of None \<Rightarrow> True | Some t \<Rightarrow> 1 \<le> length t) \<and>
     (upt_title input \<noteq> None \<or> upt_description input \<noteq> None \<or> upt_template input \<noteq> None \<or>
      upt_tags input \<noteq> None \<or> upt_isActive input \<noteq> None)"

text \<open>The object given to \<open>set\<close>: a column is assigned only when its field is supplied.\<close>

definition updatePromptTemplate_set ::
  "updatePromptTemplate_input \<Rightarrow> date \<Rightarrow> PromptTemplates_row \<Rightarrow> PromptTemplates_row" where
  "updatePromptTemplate_set input now r =
     r\<lparr>pt_title := (case upt_title input of None \<Rightarrow> pt_title r | Some v \<Rightarrow> v),
       pt_description := (case upt_description input of None \<Rightarrow> pt_description r | Some v \<Rightarrow> Some v),
       pt_template := (case upt_template input of None \<Rightarrow> pt_template r | Some v \<Rightarrow> v),
       pt_tags := (case upt_tags input of None \<Rightarrow> pt_tags r | Some v \<Rightarrow> Some v),
       pt_isActive := (case upt_isActive input of None \<Rightarrow> pt_isActive r | Some v \<Rightarrow> v),
       pt_updatedAt := now\<rparr>"

text \<open>
  \<open>const [template] = ... .returning()\<close> takes the first updated row, and is
  \<open>undefined\<close> (\<open>None\<close>) when no row was updated.
\<close>

definition updatePromptTemplate_handler ::
  "updatePromptTemplate_input \<Rightarrow> ActionAPIContext \<Rightarrow> date \<Rightarrow> database
     \<Rightarrow> PromptTemplates_row option outcome" where
  "updatePromptTemplate_handler input context now db =
     (case requireUser context of
        Inl e \<Rightarrow> (Inl e, db)
      | Inr user \<Rightarrow>
          (case ensureTemplateAccessible db (upt_id input) (user_id user) of
             Inl e \<Rightarrow> (Inl e, db)
           | Inr _ \<Rightarrow>
               let cond = (\<lambda>r. eq_sql (Some (pt_id r)) (Some (upt_id input)));
                   returning = map (updatePromptTemplate_set input now)
                                 (select_where cond (PromptTemplates db))
               in (Inr (case returning of [] \<Rightarrow> None | template # _ \<Rightarrow> Some template),
                   db\<lparr>PromptTemplates :=
                        update_where cond (updatePromptTemplate_set input now) (PromptTemplates db)\<rparr>)))"

definition updatePromptTemplate ::
  "updatePromptTemplate_input \<Rightarrow> ActionAPIContext \<Rightarrow> date \<Rightarrow> database
     \<Rightarrow> PromptTemplates_row option outcome" where
  "updatePromptTemplate input context now db =
     (if updatePromptTemplate_schema input then updatePromptTemplate_handler input context now db
      else (Inl BAD_REQUEST, db))"

text \<open>A list action answers \<open>{items, total: items.length}\<close>.\<close>

definition listing :: "'r list \<Rightarrow> 'r list \<times> nat" where
  "listing rows = (rows, length rows)"

text \<open>
  The input of \<open>listPromptTemplates\<close> may be absent; when it is an object, the schema
  fills an absent \<open>includeInactive\<close> with \<open>false\<close>. Every input passes this schema.
\<close>

record listPromptTemplates_input =
  lpt_includeInactive :: "bool option"

definition listPromptTemplates_parse ::
  "listPromptTemplates_input option \<Rightarrow> listPromptTemplates_input option" where
  "listPromptTemplates_parse input =
     map_option (\<lambda>i. i\<lparr>lpt_includeInactive :=
        Some (case lpt_includeInactive i of None \<Rightarrow> False | Some b \<Rightarrow> b)\<rparr>) input"

definition visibilityFilter :: "user \<Rightarrow> PromptTemplates_row \<Rightarrow> bool option" where
  "visibilityFilter user r =
     or_sql (eq_sql (pt_ownerId r) (Some (user_id user))) (eq_sql (pt_ownerId r) None)"

definition listPromptTemplates_handler ::
  "listPromptTemplates_input option \<Rightarrow> ActionAPIContext \<Rightarrow> database
     \<Rightarrow> (PromptTemplates_row list \<times> nat) outcome" where
  "listPromptTemplates_handler input context db =
     (case requireUser context of
        Inl e \<Rightarrow> (Inl e, db)
      | Inr user \<Rightarrow>
          let includeInactive =
                (case input of None \<Rightarrow> False
                 | Some i \<Rightarrow> (case lpt_includeInactive i of None \<Rightarrow> False | Some b \<Rightarrow> b));
              templates = select_where
                (\<lambda>r. if includeInactive then visibilityFilter user r
                      else and_sql [visibilityFilter user r, eq_sql (Some (pt_isActive r)) (Some True)])
                (PromptTemplates db)
          in (Inr (listing templates), db))"

definition listPromptTemplates ::
  "listPromptTemplates_input option \<Rightarrow> ActionAPIContext \<Rightarrow> database
     \<Rightarrow> (PromptTemplates_row list \<times> nat) outcome" where
  "listPromptTemplates input context db =
     listPromptTemplates_handler (listPromptTemplates_parse input) context db"

section \<open>Generated prompts\<close>

record createGeneratedPrompt_input =
  cgp_templateId :: "int option"
  cgp_input :: "json option"
  cgp_promptText :: string
  cgp_meta :: "json option"

definition createGeneratedPrompt_schema :: "createGeneratedPrompt_input \<Rightarrow> bool" where
  "createGeneratedPrompt_schema input \<longleftrightarrow> 1 \<le> length (cgp_promptText input)"

text \<open>The insert statement of \<open>createGeneratedPrompt\<close>, with the row it returns.\<close>

definition insertGeneratedPrompt ::
  "createGeneratedPrompt_input \<Rightarrow> user \<Rightarrow> date \<Rightarrow> database \<Rightarrow> GeneratedPrompts_row outcome" where
  "insertGeneratedPrompt input user now db =
     (let key = nextId (seq_GeneratedPrompts db) (map gp_id (GeneratedPrompts db));
          prompt = \<lparr>gp_id = key,
                    gp_templateId = cgp_templateId input,
                    gp_userId = Some (user_id user),
                    gp_input = cgp_input input,
                    gp_promptText = cgp_promptText input,
                    gp_meta = cgp_meta input,
                    gp_createdAt = now\<rparr>
      in (Inr prompt,
          db\<lparr>GeneratedPrompts := GeneratedPrompts db @ [prompt], seq_GeneratedPrompts := key\<rparr>))"

definition createGeneratedPrompt_handler ::
  "createGeneratedPrompt_input \<Rightarrow> ActionAPIContext \<Rightarrow> date \<Rightarrow> database
     \<Rightarrow> GeneratedPrompts_row outcome" where
  "createGeneratedPrompt_handler input context now db =
     (case requireUser context of
        Inl e \<Rightarrow> (Inl e, db)
      | Inr user \<Rightarrow>
          (case cgp_templateId input of
             None \<Rightarrow> insertGeneratedPrompt input user now db
           | Some templateId \<Rightarrow>
               (case ensureTemplateAccessible db templateId (user_id user) of
                  Inl e \<Rightarrow> (Inl e, db)
                | Inr _ \<Rightarrow> insertGeneratedPrompt input user now db)))"

definition createGeneratedPrompt ::
  "createGeneratedPrompt_input \<Rightarrow> ActionAPIContext \<Rightarrow> date \<Rightarrow> database
     \<Rightarrow> GeneratedPrompts_row outcome" where
  "createGeneratedPrompt input context now db =
     (if createGeneratedPrompt_schema input then createGeneratedPrompt_handler input context now db
      else (Inl BAD_REQUEST, db))"

text \<open>
  The input of \<open>listGeneratedPrompts\<close> may be absent, and so may its \<open>templateId\<close>;
  every input passes the schema.
\<close>

record listGeneratedPrompts_input =
  lgp_templateId :: "int option"

definition listGeneratedPrompts_filters ::
  "listGeneratedPrompts_input option \<Rightarrow> user \<Rightarrow> GeneratedPrompts_row \<Rightarrow> bool option list" where
  "listGeneratedPrompts_filters input user r =
     [eq_sql (gp_userId r) (Some (user_id user))] @
     (case input of
        None \<Rightarrow> []
      | Some i \<Rightarrow> (case lgp_templateId i of
                     None \<Rightarrow> []
                   | Some t \<Rightarrow> [eq_sql (gp_templateId r) (Some t)]))"

definition listGeneratedPrompts ::
  "listGeneratedPrompts_input option \<Rightarrow> ActionAPIContext \<Rightarrow> database
     \<Rightarrow> (GeneratedPrompts_row list \<times> nat) outcome" where
  "listGeneratedPrompts input context db =
     (case requireUser context of
        Inl e \<Rightarrow> (Inl e, db)
      | Inr user \<Rightarrow>
          let prompts = select_where (\<lambda>r. and_sql (listGeneratedPrompts_filters input user r))
                          (GeneratedPrompts db)
          in (Inr (listing prompts), db))"

section \<open>Favorites\<close>

definition ownPrompt :: "int \<Rightarrow> user \<Rightarrow> GeneratedPrompts_row \<Rightarrow> bool option" where
  "ownPrompt promptId user p =
     and_sql [eq_sql (Some (gp_id p)) (Some promptId), eq_sql (gp_userId p) (Some (user_id user))]"

definition favoriteOf :: "int \<Rightarrow> user \<Rightarrow> UserPromptFavorites_row \<Rightarrow> bool option" where
  "favoriteOf promptId user f =
     and_sql [eq_sql (Some (fav_promptId f)) (Some promptId),
              eq_sql (Some (fav_userId f)) (Some (user_id user))]"

definition addFavoritePrompt ::
  "int \<Rightarrow> ActionAPIContext \<Rightarrow> date \<Rightarrow> database \<Rightarrow> UserPromptFavorites_row outcome" where
  "addFavoritePrompt promptId context now db =
     (case requireUser context of
        Inl e \<Rightarrow> (Inl e, db)
      | Inr user \<Rightarrow>
          (case select_where (ownPrompt promptId user) (GeneratedPrompts db) of
             [] \<Rightarrow> (Inl NOT_FOUND, db)
           | prompt # _ \<Rightarrow>
               (case select_where (favoriteOf promptId user) (UserPromptFavorites db) of
                  existingFavorite # _ \<Rightarrow> (Inr existingFavorite, db)
                | [] \<Rightarrow>
                    let key = nextId (seq_UserPromptFavorites db)
                                (map fav_id (UserPromptFavorites db));
                        favorite = \<lparr>fav_id = key,
                                     fav_userId = user_id user,
                                     fav_promptId = promptId,
                                     fav_createdAt = now\<rparr>
                    in (Inr favorite,
                        db\<lparr>UserPromptFavorites := UserPromptFavorites db @ [favorite],
                           seq_UserPromptFavorites := key\<rparr>))))"

text \<open>The delete runs first; the error is thrown after it, when it removed nothing.\<close>

definition removeFavoritePrompt :: "int \<Rightarrow> ActionAPIContext \<Rightarrow> database \<Rightarrow> unit outcome" where
  "removeFavoritePrompt promptId context db =
     (case requireUser context of
        Inl e \<Rightarrow> (Inl e, db)
      | Inr user \<Rightarrow>
          let db' = db\<lparr>UserPromptFavorites :=
                        delete_where (favoriteOf promptId user) (UserPromptFavorites db)\<rparr>
          in if rowsAffected (favoriteOf promptId user) (UserPromptFavorites db) = 0
             then (Inl NOT_FOUND, db')
             else (Inr (), db'))"

definition listFavoritePrompts ::
  "ActionAPIContext \<Rightarrow> database \<Rightarrow> (UserPromptFavorites_row list \<times> nat) outcome" where
  "listFavoritePrompts context db =
     (case requireUser context of
        Inl e \<Rightarrow> (Inl e, db)
      | Inr user \<Rightarrow>
          let favorites = select_where (\<lambda>f. eq_sql (Some (fav_userId f)) (Some (user_id user)))
                            (UserPromptFavorites db)
          in (Inr (listing favorites), db))"

section \<open>Job history\<close>

record createPromptJob_input =
  cpj_templateId :: "int option"
  cpj_input :: "json option"
  cpj_output :: "json option"
  cpj_status :: "job_status option"

text \<open>The insert statement of \<open>createPromptJob\<close>, with the row it returns.\<close>

definition insertPromptJob ::
  "createPromptJob_input \<Rightarrow> user \<Rightarrow> date \<Rightarrow> database \<Rightarrow> PromptJobs_row outcome" where
  "insertPromptJob input user now db =
     (let key = nextId (seq_PromptJobs db) (map job_id (PromptJobs db));
          job = \<lparr>job_id = key,
                 job_userId = Some (user_id user),
                 job_templateId = cpj_templateId input,
                 job_input = cpj_input input,
                 job_output = cpj_output input,
                 job_status = (case cpj_status input of None \<Rightarrow> completed | Some s \<Rightarrow> s),
                 job_createdAt = now\<rparr>
      in (Inr job, db\<lparr>PromptJobs := PromptJobs db @ [job], seq_PromptJobs := key\<rparr>))"

text \<open>Every field of the job's input is optional: every input passes the schema.\<close>

definition createPromptJob ::
  "createPromptJob_input \<Rightarrow> ActionAPIContext \<Rightarrow> date \<Rightarrow> database \<Rightarrow> PromptJobs_row outcome" where
  "createPromptJob input context now db =
     (case requireUser context of
        Inl e \<Rightarrow> (Inl e, db)
      | Inr user \<Rightarrow>
          (case cpj_templateId input of
             None \<Rightarrow> insertPromptJob input user now db
           | Some templateId \<Rightarrow>
               (case ensureTemplateAccessible db templateId (user_id user) of
                  Inl e \<Rightarrow> (Inl e, db)
                | Inr _ \<Rightarrow> insertPromptJob input user now db)))"

definition listPromptJobs ::
  "ActionAPIContext \<Rightarrow> database \<Rightarrow> (PromptJobs_row list \<times> nat) outcome" where
  "listPromptJobs context db =
     (case requireUser context of
        Inl e \<Rightarrow> (Inl e, db)
      | Inr user \<Rightarrow>
          let jobs = select_where (\<lambda>j. eq_sql (job_userId j) (Some (user_id user))) (PromptJobs db)
          in (Inr (listing jobs), db))"

section \<open>Histories of calls\<close>

text \<open>
  The databases the exposed actions can build, one call after the other, from the empty
  one. The list actions write nothing and are left out.
\<close>

inductive reachable :: "database \<Rightarrow> bool" where
  start: "reachable empty_db"
| createPromptTemplate:
    "reachable db \<Longrightarrow> reachable (snd (createPromptTemplate templateInput context now db))"
| updatePromptTemplate:
    "reachable db \<Longrightarrow> reachable (snd (updatePromptTemplate patch context now db))"
| createGeneratedPrompt:
    "reachable db \<Longrightarrow> reachable (snd (createGeneratedPrompt promptInput context now db))"
| addFavoritePrompt:
    "reachable db \<Longrightarrow> reachable (snd (addFavoritePrompt promptId context now db))"
| removeFavoritePrompt:
    "reachable db \<Longrightarrow> reachable (snd (removeFavoritePrompt promptId context db))"
| createPromptJob:
    "reachable db \<Longrightarrow> reachable (snd (createPromptJob jobInput context now db))"

section \<open>Vocabulary of the statements\<close>

text \<open>Whether a call of \<open>listPromptTemplates\<close> asks for the inactive templates.\<close>

definition includeInactive_of :: "listPromptTemplates_input option \<Rightarrow> bool" where
  "includeInactive_of input =
     (case input of None \<Rightarrow> False
      | Some i \<Rightarrow> (case lpt_includeInactive i of None \<Rightarrow> False | Some b \<Rightarrow> b))"

text \<open>The favorite rows of a user on a prompt.\<close>

definition favorites_of :: "string \<Rightarrow> int \<Rightarrow> database \<Rightarrow> UserPromptFavorites_row list" where
  "favorites_of userId promptId db =
     filter (\<lambda>f. fav_userId f = userId \<and> fav_promptId f = promptId) (UserPromptFavorites db)"

text \<open>No user has two favorite rows on one prompt.\<close>

definition favorites_unique :: "database \<Rightarrow> bool" where
  "favorites_unique db \<longleftrightarrow> (\<forall>userId promptId. length (favorites_of userId promptId db) \<le> 1)"

text \<open>Every generated prompt and every job carries a user.\<close>

definition users_set :: "database \<Rightarrow> bool" where
  "users_set db \<longleftrightarrow>
     (\<forall>p \<in> set (GeneratedPrompts db). gp_userId p \<noteq> None) \<and>
     (\<forall>j \<in> set (PromptJobs db). job_userId j \<noteq> None)"

text \<open>
  A patch applied to a row, in the words of the update's contract: a supplied field is
  overwritten, \<open>updatedAt\<close> is stamped, and every other column keeps its value.
\<close>

definition patch_applied ::
  "updatePromptTemplate_input \<Rightarrow> date \<Rightarrow> PromptTemplates_row \<Rightarrow> PromptTemplates_row \<Rightarrow> bool" where
  "patch_applied patch now old new \<longleftrightarrow>
     pt_id new = pt_id old \<and> pt_ownerId new = pt_ownerId old \<and>
     pt_createdAt new = pt_createdAt old \<and> pt_updatedAt new = now \<and>
     pt_title new = (case upt_title patch of None \<Rightarrow> pt_title old | Some v \<Rightarrow> v) \<and>
     pt_description new = (case upt_description patch of None \<Rightarrow> pt_description old | Some v \<Rightarrow> Some v) \<and>
     pt_template new = (case upt_template patch of None \<Rightarrow> pt_template old | Some v \<Rightarrow> v) \<and>
     pt_tags new = (case upt_tags patch of None \<Rightarrow> pt_tags old | Some v \<Rightarrow> Some v) \<and>
     pt_isActive new = (case upt_isActive patch of None \<Rightarrow> pt_isActive old | Some v \<Rightarrow> v)"

text \<open>The update that supplies a template body and nothing else, and the one that supplies nothing.\<close>

definition body_patch :: "int \<Rightarrow> string \<Rightarrow> updatePromptTemplate_input" where
  "body_patch templateId body = \<lparr>upt_id = templateId, upt_title = None, upt_description = None,
     upt_template = Some body, upt_tags = None, upt_isActive = None\<rparr>"

definition empty_patch :: "int \<Rightarrow> updatePromptTemplate_input" where
  "empty_patch templateId = \<lparr>upt_id = templateId, upt_title = None, upt_description = None,
     upt_template = None, upt_tags = None, upt_isActive = None\<rparr>"

section \<open>Example callers, inputs and databases\<close>

definition alice :: user where
  "alice = \<lparr>user_id = ''alice''\<rparr>"

definition bob :: user where
  "bob = \<lparr>user_id = ''bob''\<rparr>"

subsection \<open>Templates\<close>

definition lesson_input :: createPromptTemplate_input where
  "lesson_input = \<lparr>cpt_title = ''Lesson intro'', cpt_description = None,
     cpt_template = ''Introduce {topic}'', cpt_tags = None, cpt_isActive = None\<rparr>"

text \<open>A shared (ownerless) template, as a seed gives it, and the database holding only it.\<close>

definition shared_template :: PromptTemplates_row where
  "shared_template = \<lparr>pt_id = 1, pt_ownerId = None, pt_title = ''Explain like I am 5'',
     pt_description = None, pt_template = ''Explain {topic} simply'', pt_tags = None,
     pt_isActive = True, pt_createdAt = 0, pt_updatedAt = 0\<rparr>"

definition shared_db :: database where
  "shared_db = empty_db\<lparr>PromptTemplates := [shared_template], seq_PromptTemplates := 1\<rparr>"

text \<open>
  The template a caller whose id is the empty string creates from \<open>lesson_input\<close> at
  instant 0 in the empty database, and the database after that call.
\<close>

definition blank_owner_template :: PromptTemplates_row where
  "blank_owner_template = \<lparr>pt_id = 1, pt_ownerId = Some [], pt_title = ''Lesson intro'',
     pt_description = None, pt_template = ''Introduce {topic}'', pt_tags = None,
     pt_isActive = True, pt_createdAt = 0, pt_updatedAt = 0\<rparr>"

definition blank_owner_db :: database where
  "blank_owner_db = empty_db\<lparr>PromptTemplates := [blank_owner_template], seq_PromptTemplates := 1\<rparr>"

text \<open>The template alice creates from \<open>lesson_input\<close> at instant 5, and the database after.\<close>

definition alice_template :: PromptTemplates_row where
  "alice_template = \<lparr>pt_id = 1, pt_ownerId = Some ''alice'', pt_title = ''Lesson intro'',
     pt_description = None, pt_template = ''Introduce {topic}'', pt_tags = None,
     pt_isActive = True, pt_createdAt = 5, pt_updatedAt = 5\<rparr>"

definition template_db :: database where
  "template_db = empty_db\<lparr>PromptTemplates := [alice_template], seq_PromptTemplates := 1\<rparr>"

text \<open>A second template of alice's, and the database holding her two templates.\<close>

definition second_template :: PromptTemplates_row where
  "second_template = \<lparr>pt_id = 2, pt_ownerId = Some ''alice'', pt_title = ''Quiz'',
     pt_description = Some ''Five questions'', pt_template = ''Ask about {topic}'',
     pt_tags = None, pt_isActive = False, pt_createdAt = 6, pt_updatedAt = 6\<rparr>"

definition library_db :: database where
  "library_db = empty_db\<lparr>PromptTemplates := [alice_template, second_template],
     seq_PromptTemplates := 2\<rparr>"

subsection \<open>Prompts, favorites and jobs\<close>

text \<open>
  The prompt alice generates from \<open>tides_input\<close> at instant 10 in the empty database,
  and the database after that call.
\<close>

definition tides_input :: createGeneratedPrompt_input where
  "tides_input = \<lparr>cgp_templateId = None, cgp_input = None,
     cgp_promptText = ''Explain tides simply'', cgp_meta = None\<rparr>"

definition alice_prompt :: GeneratedPrompts_row where
  "alice_prompt = \<lparr>gp_id = 1, gp_templateId = None, gp_userId = Some ''alice'', gp_input = None,
     gp_promptText = ''Explain tides simply'', gp_meta = None, gp_createdAt = 10\<rparr>"

definition prompt_db :: database where
  "prompt_db = empty_db\<lparr>GeneratedPrompts := [alice_prompt], seq_GeneratedPrompts := 1\<rparr>"

text \<open>The favorite alice puts on her prompt at instant 20, and the database holding it.\<close>

definition alice_favorite :: UserPromptFavorites_row where
  "alice_favorite = \<lparr>fav_id = 1, fav_userId = ''alice'', fav_promptId = 1, fav_createdAt = 20\<rparr>"

definition favorite_db :: database where
  "favorite_db = prompt_db\<lparr>UserPromptFavorites := [alice_favorite], seq_UserPromptFavorites := 1\<rparr>"

text \<open>The job alice records from \<open>job_input\<close> at instant 11 after her prompt.\<close>

definition job_input :: createPromptJob_input where
  "job_input = \<lparr>cpj_templateId = None, cpj_input = None, cpj_output = None, cpj_status = None\<rparr>"

definition alice_job :: PromptJobs_row where
  "alice_job = \<lparr>job_id = 1, job_userId = Some ''alice'', job_templateId = None, job_input = None,
     job_output = None, job_status = completed, job_createdAt = 11\<rparr>"

definition history_db :: database where
  "history_db = prompt_db\<lparr>PromptJobs := [alice_job], seq_PromptJobs := 1\<rparr>"

text \<open>
  Prompts of several users: two of alice's (one from template 1), one of bob's from
  template 1, and one without a user.
\<close>

definition bob_prompt :: GeneratedPrompts_row where
  "bob_prompt = \<lparr>gp_id = 2, gp_templateId = Some 1, gp_userId = Some ''bob'', gp_input = None,
     gp_promptText = ''Explain rain'', gp_meta = None, gp_createdAt = 11\<rparr>"

definition alice_template_prompt :: GeneratedPrompts_row where
  "alice_template_prompt = \<lparr>gp_id = 3, gp_templateId = Some 1, gp_userId = Some ''alice'',
     gp_input = None, gp_promptText = ''Explain snow'', gp_meta = None, gp_createdAt = 12\<rparr>"

definition userless_prompt :: GeneratedPrompts_row where
  "userless_prompt = \<lparr>gp_id = 4, gp_templateId = Some 1, gp_userId = None,
     gp_input = None, gp_promptText = ''Explain wind'', gp_meta = None, gp_createdAt = 13\<rparr>"

definition mixed_db :: database where
  "mixed_db = empty_db\<lparr>GeneratedPrompts :=
       [alice_prompt, bob_prompt, alice_template_prompt, userless_prompt],
     seq_GeneratedPrompts := 4\<rparr>"

section \<open>When a condition is true\<close>

lemma eq_sql_simps [simp]:
  "eq_sql (Some x) (Some y) = Some (x = y)"
  "eq_sql None b = None"
  "eq_sql a None = None"
  by (simp_all add: eq_sql_def split: option.splits)

lemma eq_sql_true [simp]: "eq_sql a (Some y) = Some True \<longleftrightarrow> a = Some y"
  by (cases a) simp_all

lemma and2_sql_true [simp]: "and2_sql p q = Some True \<longleftrightarrow> p = Some True \<and> q = Some True"
  by (auto simp add: and2_sql_def)

lemma or_sql_true [simp]: "or_sql p q = Some True \<longleftrightarrow> p = Some True \<or> q = Some True"
  by (auto simp add: or_sql_def)

lemma select_where_Some [simp]: "select_where (\<lambda>r. Some (P r)) rows = filter P rows"
  by (simp add: select_where_def)

lemma update_where_Some [simp]:
  "update_where (\<lambda>r. Some (P r)) f rows = map (\<lambda>r. if P r then f r else r) rows"
  by (simp add: update_where_def)

lemma min_length_1 [simp]: "1 \<le> length s \<longleftrightarrow> s \<noteq> []"
  by (cases s) simp_all

lemma visibilityFilter_true:
  "visibilityFilter user r = Some True \<longleftrightarrow> pt_ownerId r = Some (user_id user)"
  by (simp add: visibilityFilter_def)

lemma favoriteOf_true:
  "favoriteOf promptId user f = Some True \<longleftrightarrow>
     fav_promptId f = promptId \<and> fav_userId f = user_id user"
  by (simp add: favoriteOf_def)

lemma ownPrompt_true:
  "ownPrompt promptId user p = Some True \<longleftrightarrow>
     gp_id p = promptId \<and> gp_userId p = Some (user_id user)"
  by (simp add: ownPrompt_def)

section \<open>Template management: creation\<close>

text \<open>
  C8. \<open>createPromptTemplate\<close> answers \<open>BAD_REQUEST\<close> and leaves the database as it was
  when the title or the template body is the empty string. With both non-empty and a
  signed-in caller it succeeds; and whenever it succeeds, the row it returns is the one
  row appended to the table, owned by the caller, active unless \<open>isActive\<close> was
  supplied (then as supplied), and created and updated at the same instant.
\<close>

theorem createPromptTemplate_contract:
  "(cpt_title input = [] \<or> cpt_template input = [] \<longrightarrow>
      createPromptTemplate input context now db = (Inl BAD_REQUEST, db)) \<and>
   (cpt_title input \<noteq> [] \<and> cpt_template input \<noteq> [] \<and> context \<noteq> None \<longrightarrow>
      (\<exists>row db'. createPromptTemplate input context now db = (Inr row, db'))) \<and>
   (\<forall>row db'. createPromptTemplate input context now db = (Inr row, db') \<longrightarrow>
      context \<noteq> None \<and>
      pt_ownerId row = map_option user_id context \<and>
      pt_isActive row = (case cpt_isActive input of None \<Rightarrow> True | Some b \<Rightarrow> b) \<and>
      pt_createdAt row = pt_updatedAt row \<and>
      PromptTemplates db' = PromptTemplates db @ [row])"
  by (auto simp add: createPromptTemplate_def createPromptTemplate_schema_def
        createPromptTemplate_handler_def requireUser_def Let_def
      simp del: One_nat_def split: option.splits)

theorem createPromptTemplate_contract_witness:
  "createPromptTemplate (lesson_input\<lparr>cpt_template := []\<rparr>) (Some alice) 5 empty_db
     = (Inl BAD_REQUEST, empty_db) \<and>
   (\<exists>row db'. createPromptTemplate lesson_input (Some alice) 5 empty_db = (Inr row, db') \<and>
      pt_ownerId row = Some ''alice'' \<and> pt_isActive row \<and>
      pt_createdAt row = pt_updatedAt row \<and> PromptTemplates db' = [row])"
proof -
  have empty_body: "cpt_template (lesson_input\<lparr>cpt_template := []\<rparr>) = []"
    by simp
  have filled: "cpt_title lesson_input \<noteq> [] \<and> cpt_template lesson_input \<noteq> [] \<and> Some alice \<noteq> None"
    by (simp add: lesson_input_def)
  from createPromptTemplate_contract [of "lesson_input\<lparr>cpt_template := []\<rparr>" "Some alice" 5 empty_db]
    empty_body
  have rejected: "createPromptTemplate (lesson_input\<lparr>cpt_template := []\<rparr>) (Some alice) 5 empty_db
     = (Inl BAD_REQUEST, empty_db)"
    by blast
  from createPromptTemplate_contract [of lesson_input "Some alice" 5 empty_db] filled
  obtain row db' where run: "createPromptTemplate lesson_input (Some alice) 5 empty_db = (Inr row, db')"
    by blast
  with createPromptTemplate_contract [of lesson_input "Some alice" 5 empty_db]
  have "pt_ownerId row = map_option user_id (Some alice) \<and>
      pt_isActive row = (case cpt_isActive lesson_input of None \<Rightarrow> True | Some b \<Rightarrow> b) \<and>
      pt_createdAt row = pt_updatedAt row \<and>
      PromptTemplates db' = PromptTemplates empty_db @ [row]"
    by blast
  then have "pt_ownerId row = Some ''alice'' \<and> pt_isActive row \<and>
      pt_createdAt row = pt_updatedAt row \<and> PromptTemplates db' = [row]"
    by (simp add: alice_def lesson_input_def empty_db_def)
  with run rejected show ?thesis
    by blast
qed

section \<open>Template management: listing\<close>

text \<open>
  What the list returns: the rows whose owner is the caller, without the inactive ones
  unless they are asked for. No row without an owner is among them: on such a row both
  comparisons of \<open>visibilityFilter\<close> are unknown.
\<close>

lemma listPromptTemplates_items:
  "listPromptTemplates input (Some user) db =
     (Inr (listing (filter
        (\<lambda>r. pt_ownerId r = Some (user_id user) \<and> (includeInactive_of input \<or> pt_isActive r))
        (PromptTemplates db))), db)"
proof (cases "includeInactive_of input")
  case True
  then show ?thesis
    by (auto simp add: listPromptTemplates_def listPromptTemplates_parse_def includeInactive_of_def
        listPromptTemplates_handler_def requireUser_def select_where_def Let_def
        visibilityFilter_true split: option.splits)
next
  case False
  then show ?thesis
    by (auto simp add: listPromptTemplates_def listPromptTemplates_parse_def includeInactive_of_def
        listPromptTemplates_handler_def requireUser_def select_where_def Let_def
        visibilityFilter_true split: option.splits)
qed

text \<open>
  C1. The list is meant to hold the caller's templates and the ownerless ones. On a
  database holding one active ownerless template, the accessibility check gives the
  template to alice, and her list is empty, whether or not she asks for the inactive
  rows.
\<close>

theorem listPromptTemplates_omits_ownerless:
  "pt_ownerId shared_template = None \<and> pt_isActive shared_template \<and>
   PromptTemplates shared_db = [shared_template] \<and>
   ensureTemplateAccessible shared_db 1 (user_id alice) = Inr shared_template \<and>
   listPromptTemplates None (Some alice) shared_db = (Inr ([], 0), shared_db) \<and>
   listPromptTemplates (Some \<lparr>lpt_includeInactive = Some True\<rparr>) (Some alice) shared_db
     = (Inr ([], 0), shared_db)"
  by (simp add: listPromptTemplates_def listPromptTemplates_parse_def
      listPromptTemplates_handler_def requireUser_def select_where_def visibilityFilter_def
      or_sql_def listing_def ensureTemplateAccessible_def truthy_def
      shared_db_def shared_template_def empty_db_def alice_def)

section \<open>What each action writes\<close>

text \<open>The template actions leave the three other tables alone.\<close>

lemma createPromptTemplate_frame:
  "GeneratedPrompts (snd (createPromptTemplate input context now db)) = GeneratedPrompts db \<and>
   UserPromptFavorites (snd (createPromptTemplate input context now db)) = UserPromptFavorites db \<and>
   PromptJobs (snd (createPromptTemplate input context now db)) = PromptJobs db"
  by (simp add: createPromptTemplate_def createPromptTemplate_handler_def Let_def
      split: sum.splits)

lemma updatePromptTemplate_frame:
  "GeneratedPrompts (snd (updatePromptTemplate input context now db)) = GeneratedPrompts db \<and>
   UserPromptFavorites (snd (updatePromptTemplate input context now db)) = UserPromptFavorites db \<and>
   PromptJobs (snd (updatePromptTemplate input context now db)) = PromptJobs db"
  by (simp add: updatePromptTemplate_def updatePromptTemplate_handler_def Let_def
      split: sum.splits)

text \<open>\<open>createGeneratedPrompt\<close> appends at most one prompt, which carries a user.\<close>

lemma createGeneratedPrompt_frame:
  "UserPromptFavorites (snd (createGeneratedPrompt input context now db)) = UserPromptFavorites db \<and>
   PromptJobs (snd (createGeneratedPrompt input context now db)) = PromptJobs db \<and>
   PromptTemplates (snd (createGeneratedPrompt input context now db)) = PromptTemplates db \<and>
   (GeneratedPrompts (snd (createGeneratedPrompt input context now db)) = GeneratedPrompts db \<or>
    (\<exists>p. gp_userId p \<noteq> None \<and>
       GeneratedPrompts (snd (createGeneratedPrompt input context now db)) = GeneratedPrompts db @ [p]))"
  by (simp add: createGeneratedPrompt_def createGeneratedPrompt_handler_def
      insertGeneratedPrompt_def Let_def split: sum.splits option.splits)

text \<open>\<open>createPromptJob\<close> appends at most one job, which carries a user.\<close>

lemma createPromptJob_frame:
  "UserPromptFavorites (snd (createPromptJob input context now db)) = UserPromptFavorites db \<and>
   GeneratedPrompts (snd (createPromptJob input context now db)) = GeneratedPrompts db \<and>
   PromptTemplates (snd (createPromptJob input context now db)) = PromptTemplates db \<and>
   (PromptJobs (snd (createPromptJob input context now db)) = PromptJobs db \<or>
    (\<exists>j. job_userId j \<noteq> None \<and>
       PromptJobs (snd (createPromptJob input context now db)) = PromptJobs db @ [j]))"
  by (simp add: createPromptJob_def insertPromptJob_def Let_def split: sum.splits option.splits)

text \<open>
  \<open>addFavoritePrompt\<close> appends at most one favorite, and only for a user who had none
  on the prompt; \<open>removeFavoritePrompt\<close> only removes favorites.
\<close>

lemma addFavoritePrompt_frame:
  "GeneratedPrompts (snd (addFavoritePrompt promptId context now db)) = GeneratedPrompts db \<and>
   PromptJobs (snd (addFavoritePrompt promptId context now db)) = PromptJobs db \<and>
   PromptTemplates (snd (addFavoritePrompt promptId context now db)) = PromptTemplates db \<and>
   (UserPromptFavorites (snd (addFavoritePrompt promptId context now db)) = UserPromptFavorites db \<or>
    (\<exists>f. filter (\<lambda>g. fav_userId g = fav_userId f \<and> fav_promptId g = fav_promptId f)
            (UserPromptFavorites db) = [] \<and>
       UserPromptFavorites (snd (addFavoritePrompt promptId context now db))
         = UserPromptFavorites db @ [f]))"
proof (cases "context")
  case None
  then show ?thesis
    by (simp add: addFavoritePrompt_def requireUser_def)
next
  case (Some user)
  have selected: "select_where (favoriteOf promptId user) (UserPromptFavorites db) =
      filter (\<lambda>g. fav_userId g = user_id user \<and> fav_promptId g = promptId) (UserPromptFavorites db)"
    by (auto simp add: select_where_def favoriteOf_true intro: filter_cong)
  from Some show ?thesis
    by (simp add: addFavoritePrompt_def requireUser_def selected Let_def split: list.splits)
qed

lemma removeFavoritePrompt_frame:
  "GeneratedPrompts (snd (removeFavoritePrompt promptId context db)) = GeneratedPrompts db \<and>
   PromptJobs (snd (removeFavoritePrompt promptId context db)) = PromptJobs db \<and>
   PromptTemplates (snd (removeFavoritePrompt promptId context db)) = PromptTemplates db \<and>
   (\<exists>keep. UserPromptFavorites (snd (removeFavoritePrompt promptId context db))
      = filter keep (UserPromptFavorites db))"
proof (cases "context")
  case None
  then show ?thesis
    by (auto simp add: removeFavoritePrompt_def requireUser_def intro: exI [of _ "\<lambda>f. True"])
next
  case (Some user)
  then show ?thesis
    by (auto simp add: removeFavoritePrompt_def requireUser_def Let_def delete_where_def)
qed

section \<open>Invariants of the histories of calls\<close>

lemma favorites_unique_append:
  assumes "favorites_unique db"
    and "filter (\<lambda>g. fav_userId g = fav_userId f \<and> fav_promptId g = fav_promptId f)
           (UserPromptFavorites db) = []"
    and "UserPromptFavorites db' = UserPromptFavorites db @ [f]"
  shows "favorites_unique db'"
  unfolding favorites_unique_def favorites_of_def
proof (intro allI)
  fix userId promptId
  show "length (filter (\<lambda>g. fav_userId g = userId \<and> fav_promptId g = promptId)
          (UserPromptFavorites db')) \<le> 1"
  proof (cases "fav_userId f = userId \<and> fav_promptId f = promptId")
    case True
    with assms(2) assms(3) show ?thesis
      by auto
  next
    case False
    with assms(1) assms(3) show ?thesis
      by (auto simp add: favorites_unique_def favorites_of_def)
  qed
qed

lemma favorites_unique_filter:
  assumes "favorites_unique db"
    and "UserPromptFavorites db' = filter keep (UserPromptFavorites db)"
  shows "favorites_unique db'"
  unfolding favorites_unique_def favorites_of_def
proof (intro allI)
  fix userId promptId
  let ?mine = "\<lambda>g. fav_userId g = userId \<and> fav_promptId g = promptId"
  have "filter ?mine (filter keep (UserPromptFavorites db))
      = filter keep (filter ?mine (UserPromptFavorites db))"
    by (auto intro: filter_cong)
  then have "length (filter ?mine (UserPromptFavorites db'))
      \<le> length (filter ?mine (UserPromptFavorites db))"
    unfolding assms(2) by (simp only: length_filter_le)
  also from assms(1) have "\<dots> \<le> 1"
    by (simp add: favorites_unique_def favorites_of_def)
  finally show "length (filter ?mine (UserPromptFavorites db')) \<le> 1" .
qed

lemma favorites_unique_same:
  "favorites_unique db \<Longrightarrow> UserPromptFavorites db' = UserPromptFavorites db \<Longrightarrow> favorites_unique db'"
  by (simp add: favorites_unique_def favorites_of_def)

text \<open>
  Calls that follow one another never leave a user with two favorites on one prompt.
\<close>

lemma reachable_favorites_unique: "reachable db \<Longrightarrow> favorites_unique db"
proof (induction rule: reachable.induct)
  case start
  show ?case
    by (simp add: favorites_unique_def favorites_of_def empty_db_def)
next
  case (createPromptTemplate db templateInput ctx now)
  then show ?case
    using createPromptTemplate_frame [of templateInput ctx now db]
    by (blast intro: favorites_unique_same)
next
  case (updatePromptTemplate db patch ctx now)
  then show ?case
    using updatePromptTemplate_frame [of patch ctx now db]
    by (blast intro: favorites_unique_same)
next
  case (createGeneratedPrompt db promptInput ctx now)
  then show ?case
    using createGeneratedPrompt_frame [of promptInput ctx now db]
    by (blast intro: favorites_unique_same)
next
  case (addFavoritePrompt db promptId ctx now)
  then show ?case
    using addFavoritePrompt_frame [of promptId ctx now db]
    by (blast intro: favorites_unique_same favorites_unique_append)
next
  case (removeFavoritePrompt db promptId ctx)
  then show ?case
    using removeFavoritePrompt_frame [of promptId ctx db]
    by (blast intro: favorites_unique_filter)
next
  case (createPromptJob db jobInput ctx now)
  then show ?case
    using createPromptJob_frame [of jobInput ctx now db]
    by (blast intro: favorites_unique_same)
qed

text \<open>Every prompt and every job the calls have stored carries a user.\<close>

lemma reachable_users_set: "reachable db \<Longrightarrow> users_set db"
proof (induction rule: reachable.induct)
  case start
  show ?case
    by (simp add: users_set_def empty_db_def)
next
  case (createPromptTemplate db templateInput ctx now)
  then show ?case
    using createPromptTemplate_frame [of templateInput ctx now db]
    by (simp add: users_set_def)
next
  case (updatePromptTemplate db patch ctx now)
  then show ?case
    using updatePromptTemplate_frame [of patch ctx now db]
    by (simp add: users_set_def)
next
  case (createGeneratedPrompt db promptInput ctx now)
  then show ?case
    using createGeneratedPrompt_frame [of promptInput ctx now db]
    by (auto simp add: users_set_def)
next
  case (addFavoritePrompt db promptId ctx now)
  then show ?case
    using addFavoritePrompt_frame [of promptId ctx now db]
    by (simp add: users_set_def)
next
  case (removeFavoritePrompt db promptId ctx)
  then show ?case
    using removeFavoritePrompt_frame [of promptId ctx db]
    by (simp add: users_set_def)
next
  case (createPromptJob db jobInput ctx now)
  then show ?case
    using createPromptJob_frame [of jobInput ctx now db]
    by (auto simp add: users_set_def)
qed

section \<open>Favorites\<close>

lemma select_favoriteOf:
  "select_where (favoriteOf promptId user) (UserPromptFavorites db)
     = favorites_of (user_id user) promptId db"
  by (auto simp add: select_where_def favorites_of_def favoriteOf_true intro: filter_cong)

lemma select_ownPrompt_empty:
  "select_where (ownPrompt promptId user) (GeneratedPrompts db) = [] \<longleftrightarrow>
     \<not> (\<exists>p \<in> set (GeneratedPrompts db). gp_id p = promptId \<and> gp_userId p = Some (user_id user))"
  by (auto simp add: select_where_def ownPrompt_true filter_empty_conv)

text \<open>The three ways a call of a signed-in caller ends.\<close>

lemma addFavoritePrompt_not_own:
  assumes "\<not> (\<exists>p \<in> set (GeneratedPrompts db). gp_id p = promptId \<and> gp_userId p = Some (user_id user))"
  shows "addFavoritePrompt promptId (Some user) now db = (Inl NOT_FOUND, db)"
  using assms select_ownPrompt_empty [of promptId user db]
  by (simp add: addFavoritePrompt_def requireUser_def)

lemma addFavoritePrompt_existing:
  assumes "\<exists>p \<in> set (GeneratedPrompts db). gp_id p = promptId \<and> gp_userId p = Some (user_id user)"
    and "favorites_of (user_id user) promptId db = existing # others"
  shows "addFavoritePrompt promptId (Some user) now db = (Inr existing, db)"
proof -
  from assms(1) obtain prompt prompts
    where "select_where (ownPrompt promptId user) (GeneratedPrompts db) = prompt # prompts"
    using select_ownPrompt_empty [of promptId user db]
    by (cases "select_where (ownPrompt promptId user) (GeneratedPrompts db)") auto
  with assms(2) show ?thesis
    by (simp add: addFavoritePrompt_def requireUser_def select_favoriteOf)
qed

lemma addFavoritePrompt_new:
  assumes "\<exists>p \<in> set (GeneratedPrompts db). gp_id p = promptId \<and> gp_userId p = Some (user_id user)"
    and "favorites_of (user_id user) promptId db = []"
  shows "\<exists>key. addFavoritePrompt promptId (Some user) now db =
     (Inr \<lparr>fav_id = key, fav_userId = user_id user, fav_promptId = promptId, fav_createdAt = now\<rparr>,
      db\<lparr>UserPromptFavorites := UserPromptFavorites db @
            [\<lparr>fav_id = key, fav_userId = user_id user, fav_promptId = promptId, fav_createdAt = now\<rparr>],
         seq_UserPromptFavorites := key\<rparr>)"
proof -
  from assms(1) obtain prompt prompts
    where "select_where (ownPrompt promptId user) (GeneratedPrompts db) = prompt # prompts"
    using select_ownPrompt_empty [of promptId user db]
    by (cases "select_where (ownPrompt promptId user) (GeneratedPrompts db)") auto
  with assms(2) show ?thesis
    by (simp add: addFavoritePrompt_def requireUser_def select_favoriteOf Let_def)
qed

text \<open>
  C2. A signed-in caller adds a favorite twice, one call after the other, on a prompt
  they own, in a database that holds at most one favorite of theirs on that prompt (as
  every database built by calls that do not overlap does, see \<open>reachable_favorites_unique\<close>).
  Both calls succeed with the same favorite row; the second call writes nothing; after
  it the caller has exactly that one favorite on the prompt; and the first call either
  found the row or appended it to a table that had none.
\<close>

theorem addFavoritePrompt_twice:
  assumes owned: "\<exists>p \<in> set (GeneratedPrompts db). gp_id p = promptId \<and> gp_userId p = Some (user_id user)"
    and unique: "length (favorites_of (user_id user) promptId db) \<le> 1"
    and first: "addFavoritePrompt promptId (Some user) now db = (r1, db1)"
    and second: "addFavoritePrompt promptId (Some user) now' db1 = (r2, db2)"
  shows "\<exists>favorite. r1 = Inr favorite \<and> r2 = Inr favorite \<and> db2 = db1 \<and>
           favorites_of (user_id user) promptId db2 = [favorite] \<and>
           (db1 = db \<and> favorites_of (user_id user) promptId db = [favorite] \<or>
            favorites_of (user_id user) promptId db = [] \<and>
            UserPromptFavorites db1 = UserPromptFavorites db @ [favorite])"
proof (cases "favorites_of (user_id user) promptId db")
  case Nil
  from addFavoritePrompt_new [OF owned Nil, of now] first
  obtain key where r1: "r1 = Inr \<lparr>fav_id = key, fav_userId = user_id user,
        fav_promptId = promptId, fav_createdAt = now\<rparr>"
    and db1: "db1 = db\<lparr>UserPromptFavorites := UserPromptFavorites db @
            [\<lparr>fav_id = key, fav_userId = user_id user, fav_promptId = promptId, fav_createdAt = now\<rparr>],
         seq_UserPromptFavorites := key\<rparr>"
    by auto
  let ?new = "\<lparr>fav_id = key, fav_userId = user_id user, fav_promptId = promptId, fav_createdAt = now\<rparr>"
  from Nil db1 have favs1: "favorites_of (user_id user) promptId db1 = [?new]"
    by (simp add: favorites_of_def)
  from owned db1
  have owned1: "\<exists>p \<in> set (GeneratedPrompts db1). gp_id p = promptId \<and> gp_userId p = Some (user_id user)"
    by simp
  from addFavoritePrompt_existing [OF owned1 favs1, of now'] second
  have "r2 = Inr ?new" and "db2 = db1"
    by simp_all
  with r1 db1 favs1 Nil show ?thesis
    by simp
next
  case (Cons existing others)
  with unique have others: "others = []"
    by simp
  from addFavoritePrompt_existing [OF owned Cons, of now] first
  have r1: "r1 = Inr existing" and db1: "db1 = db"
    by simp_all
  from addFavoritePrompt_existing [OF owned Cons, of now'] second db1
  have "r2 = Inr existing" and "db2 = db1"
    by simp_all
  with r1 db1 Cons others show ?thesis
    by simp
qed

theorem addFavoritePrompt_twice_witness:
  "fst (addFavoritePrompt 1 (Some alice) 20 prompt_db) = Inr alice_favorite \<and>
   fst (addFavoritePrompt 1 (Some alice) 30 (snd (addFavoritePrompt 1 (Some alice) 20 prompt_db)))
     = Inr alice_favorite \<and>
   favorites_of ''alice'' 1
     (snd (addFavoritePrompt 1 (Some alice) 30 (snd (addFavoritePrompt 1 (Some alice) 20 prompt_db))))
     = [alice_favorite]"
proof -
  let ?first = "addFavoritePrompt 1 (Some alice) 20 prompt_db"
  let ?second = "addFavoritePrompt 1 (Some alice) 30 (snd ?first)"
  have owned: "\<exists>p \<in> set (GeneratedPrompts prompt_db). gp_id p = 1 \<and> gp_userId p = Some (user_id alice)"
    by (simp add: prompt_db_def alice_prompt_def alice_def empty_db_def)
  have unique: "length (favorites_of (user_id alice) 1 prompt_db) \<le> 1"
    by (simp add: favorites_of_def prompt_db_def empty_db_def)
  have evaluated: "fst ?first = Inr alice_favorite"
    by (simp add: addFavoritePrompt_def requireUser_def select_where_def ownPrompt_def
        favoriteOf_def nextId_def prompt_db_def alice_prompt_def alice_def empty_db_def
        alice_favorite_def Let_def)
  from addFavoritePrompt_twice [OF owned unique, of 20 "fst ?first" "snd ?first" 30 "fst ?second" "snd ?second"]
  obtain favorite where "fst ?first = Inr favorite" and "fst ?second = Inr favorite"
    and "favorites_of (user_id alice) 1 (snd ?second) = [favorite]"
    by auto
  with evaluated show ?thesis
    by (simp add: alice_def)
qed

text \<open>What a call of a signed-in caller answers and writes.\<close>

lemma removeFavoritePrompt_run:
  "removeFavoritePrompt promptId (Some user) db =
     (if favorites_of (user_id user) promptId db = [] then Inl NOT_FOUND else Inr (),
      db\<lparr>UserPromptFavorites :=
           filter (\<lambda>f. \<not> (fav_userId f = user_id user \<and> fav_promptId f = promptId))
             (UserPromptFavorites db)\<rparr>)"
proof -
  have "delete_where (favoriteOf promptId user) (UserPromptFavorites db) =
      filter (\<lambda>f. \<not> (fav_userId f = user_id user \<and> fav_promptId f = promptId))
        (UserPromptFavorites db)"
    by (auto simp add: delete_where_def favoriteOf_true intro: filter_cong)
  then show ?thesis
    by (simp add: removeFavoritePrompt_def requireUser_def Let_def rowsAffected_def
        select_favoriteOf)
qed

text \<open>
  C3. \<open>removeFavoritePrompt\<close> of a signed-in caller deletes the caller's favorite rows
  on the prompt and leaves the other rows; it answers \<open>NOT_FOUND\<close> exactly when there
  was no such row, that is exactly when the table kept its length, and succeeds exactly
  when there was one. So when the caller has exactly one favorite on the prompt, the
  first of two calls succeeds and the second answers \<open>NOT_FOUND\<close>.
\<close>

theorem removeFavoritePrompt_contract:
  "(\<forall>r db'. removeFavoritePrompt promptId (Some user) db = (r, db') \<longrightarrow>
      UserPromptFavorites db' =
        filter (\<lambda>f. \<not> (fav_userId f = user_id user \<and> fav_promptId f = promptId))
          (UserPromptFavorites db) \<and>
      favorites_of (user_id user) promptId db' = [] \<and>
      (r = Inl NOT_FOUND \<longleftrightarrow> favorites_of (user_id user) promptId db = []) \<and>
      (r = Inl NOT_FOUND \<longleftrightarrow> length (UserPromptFavorites db') = length (UserPromptFavorites db)) \<and>
      (r = Inr () \<longleftrightarrow> favorites_of (user_id user) promptId db \<noteq> [])) \<and>
   (length (favorites_of (user_id user) promptId db) = 1 \<longrightarrow>
      fst (removeFavoritePrompt promptId (Some user) db) = Inr () \<and>
      fst (removeFavoritePrompt promptId (Some user)
             (snd (removeFavoritePrompt promptId (Some user) db))) = Inl NOT_FOUND)"
proof -
  let ?mine = "\<lambda>f. fav_userId f = user_id user \<and> fav_promptId f = promptId"
  let ?favs = "UserPromptFavorites db"
  let ?db' = "db\<lparr>UserPromptFavorites := filter (\<lambda>f. \<not> ?mine f) ?favs\<rparr>"
  have kept: "length (filter (\<lambda>f. \<not> ?mine f) ?favs) = length ?favs \<longleftrightarrow> filter ?mine ?favs = []"
    using sum_length_filter_compl [of ?mine ?favs] by auto
  have gone: "favorites_of (user_id user) promptId ?db' = []"
    by (simp add: favorites_of_def filter_empty_conv)
  have again: "fst (removeFavoritePrompt promptId (Some user) ?db') = Inl NOT_FOUND"
    by (simp only: removeFavoritePrompt_run gone) simp
  have first: "removeFavoritePrompt promptId (Some user) db =
      (if favorites_of (user_id user) promptId db = [] then Inl NOT_FOUND else Inr (), ?db')"
    by (rule removeFavoritePrompt_run)
  have part1: "\<forall>r db'. removeFavoritePrompt promptId (Some user) db = (r, db') \<longrightarrow>
      UserPromptFavorites db' = filter (\<lambda>f. \<not> ?mine f) ?favs \<and>
      favorites_of (user_id user) promptId db' = [] \<and>
      (r = Inl NOT_FOUND \<longleftrightarrow> favorites_of (user_id user) promptId db = []) \<and>
      (r = Inl NOT_FOUND \<longleftrightarrow> length (UserPromptFavorites db') = length (UserPromptFavorites db)) \<and>
      (r = Inr () \<longleftrightarrow> favorites_of (user_id user) promptId db \<noteq> [])"
    using kept gone unfolding first by (auto simp add: favorites_of_def)
  have part2: "length (favorites_of (user_id user) promptId db) = 1 \<longrightarrow>
      fst (removeFavoritePrompt promptId (Some user) db) = Inr () \<and>
      fst (removeFavoritePrompt promptId (Some user)
             (snd (removeFavoritePrompt promptId (Some user) db))) = Inl NOT_FOUND"
    using again unfolding first by auto
  from part1 part2 show ?thesis
    by blast
qed

theorem removeFavoritePrompt_contract_witness:
  "length (favorites_of ''alice'' 1 favorite_db) = 1 \<and>
   removeFavoritePrompt 1 (Some alice) favorite_db = (Inr (), prompt_db\<lparr>seq_UserPromptFavorites := 1\<rparr>) \<and>
   fst (removeFavoritePrompt 1 (Some alice) (snd (removeFavoritePrompt 1 (Some alice) favorite_db)))
     = Inl NOT_FOUND \<and>
   favorites_of ''alice'' 1 (snd (removeFavoritePrompt 1 (Some alice) favorite_db)) = []"
proof -
  have one: "length (favorites_of (user_id alice) 1 favorite_db) = 1"
    by (simp add: favorites_of_def favorite_db_def alice_favorite_def alice_def)
  have evaluated: "removeFavoritePrompt 1 (Some alice) favorite_db
      = (Inr (), prompt_db\<lparr>seq_UserPromptFavorites := 1\<rparr>)"
    by (simp add: removeFavoritePrompt_def requireUser_def rowsAffected_def delete_where_def
        select_where_def favoriteOf_def favorite_db_def alice_favorite_def alice_def
        prompt_db_def empty_db_def)
  from removeFavoritePrompt_contract [of 1 alice favorite_db] one evaluated
  show ?thesis
    by (simp add: alice_def)
qed

text \<open>
  C7. When no generated prompt has the given id and the caller as its user (there is
  no such prompt, or it is another user's), \<open>addFavoritePrompt\<close> answers \<open>NOT_FOUND\<close>
  and writes nothing. Whenever it succeeds, the favorite it returns is the caller's, on
  that prompt, and the prompt is the caller's own; and the table of favorites is as it
  was, or has that one row more.
\<close>

theorem addFavoritePrompt_own_prompts_only:
  "(\<not> (\<exists>p \<in> set (GeneratedPrompts db). gp_id p = promptId \<and> gp_userId p = Some (user_id user)) \<longrightarrow>
      addFavoritePrompt promptId (Some user) now db = (Inl NOT_FOUND, db)) \<and>
   (\<forall>favorite db'. addFavoritePrompt promptId (Some user) now db = (Inr favorite, db') \<longrightarrow>
      fav_userId favorite = user_id user \<and> fav_promptId favorite = promptId \<and>
      (\<exists>p \<in> set (GeneratedPrompts db). gp_id p = promptId \<and> gp_userId p = Some (user_id user)) \<and>
      (UserPromptFavorites db' = UserPromptFavorites db \<or>
       UserPromptFavorites db' = UserPromptFavorites db @ [favorite])) \<and>
   (\<forall>e db'. addFavoritePrompt promptId (Some user) now db = (Inl e, db') \<longrightarrow> db' = db)"
proof (cases "\<exists>p \<in> set (GeneratedPrompts db). gp_id p = promptId \<and> gp_userId p = Some (user_id user)")
  case False
  with addFavoritePrompt_not_own [of db promptId user now] show ?thesis
    by simp
next
  case owned: True
  show ?thesis
  proof (cases "favorites_of (user_id user) promptId db")
    case Nil
    with addFavoritePrompt_new [OF owned Nil, of now] owned show ?thesis
      by auto
  next
    case (Cons existing others)
    then have "existing \<in> set (favorites_of (user_id user) promptId db)"
      by simp
    then have "fav_userId existing = user_id user \<and> fav_promptId existing = promptId"
      by (simp add: favorites_of_def)
    with addFavoritePrompt_existing [OF owned Cons, of now] owned show ?thesis
      by auto
  qed
qed

theorem addFavoritePrompt_own_prompts_only_witness:
  "addFavoritePrompt 1 (Some bob) 20 prompt_db = (Inl NOT_FOUND, prompt_db) \<and>
   addFavoritePrompt 2 (Some alice) 20 prompt_db = (Inl NOT_FOUND, prompt_db) \<and>
   fst (addFavoritePrompt 1 (Some alice) 20 prompt_db) = Inr alice_favorite \<and>
   fav_userId alice_favorite = user_id alice"
proof -
  have other: "\<not> (\<exists>p \<in> set (GeneratedPrompts prompt_db). gp_id p = 1 \<and> gp_userId p = Some (user_id bob))"
    by (simp add: prompt_db_def alice_prompt_def bob_def empty_db_def)
  have absent: "\<not> (\<exists>p \<in> set (GeneratedPrompts prompt_db). gp_id p = 2 \<and> gp_userId p = Some (user_id alice))"
    by (simp add: prompt_db_def alice_prompt_def empty_db_def)
  have evaluated: "fst (addFavoritePrompt 1 (Some alice) 20 prompt_db) = Inr alice_favorite"
    by (simp add: addFavoritePrompt_def requireUser_def select_where_def ownPrompt_def
        favoriteOf_def nextId_def prompt_db_def alice_prompt_def alice_def empty_db_def
        alice_favorite_def Let_def)
  from addFavoritePrompt_own_prompts_only [of prompt_db 1 bob 20] other
  have "addFavoritePrompt 1 (Some bob) 20 prompt_db = (Inl NOT_FOUND, prompt_db)"
    by blast
  moreover from addFavoritePrompt_own_prompts_only [of prompt_db 2 alice 20] absent
  have "addFavoritePrompt 2 (Some alice) 20 prompt_db = (Inl NOT_FOUND, prompt_db)"
    by blast
  moreover from addFavoritePrompt_own_prompts_only [of prompt_db 1 alice 20] evaluated
  have "fav_userId alice_favorite = user_id alice"
    by (metis prod.collapse)
  ultimately show ?thesis
    using evaluated by simp
qed

section \<open>The template accessibility check\<close>

lemma ensureTemplateAccessible_cases:
  "ensureTemplateAccessible db templateId userId =
     (case filter (\<lambda>r. pt_id r = templateId) (PromptTemplates db) of
        [] \<Rightarrow> Inl NOT_FOUND
      | template # _ \<Rightarrow>
          if pt_ownerId template \<in> {None, Some [], Some userId} then Inr template
          else Inl FORBIDDEN)"
  by (auto simp add: ensureTemplateAccessible_def truthy_def
      split: list.splits option.splits)

text \<open>
  C4, as the code has it. The check answers \<open>NOT_FOUND\<close> when no template has the
  id; on the first template with the id it answers \<open>FORBIDDEN\<close> when the owner is a
  non-empty string other than the caller's id, and returns the row when the owner is
  NULL, the empty string or the caller. \<open>updatePromptTemplate\<close> runs it on every input
  that passes its schema, \<open>createGeneratedPrompt\<close> and \<open>createPromptJob\<close> when a
  \<open>templateId\<close> is supplied; when it fails they fail with its error and leave the
  database as it was.
\<close>

theorem ensureTemplateAccessible_contract:
  "(filter (\<lambda>r. pt_id r = templateId) (PromptTemplates db) = [] \<longrightarrow>
      ensureTemplateAccessible db templateId userId = Inl NOT_FOUND) \<and>
   (\<forall>template rest. filter (\<lambda>r. pt_id r = templateId) (PromptTemplates db) = template # rest \<longrightarrow>
      (pt_ownerId template \<notin> {None, Some [], Some userId} \<longrightarrow>
         ensureTemplateAccessible db templateId userId = Inl FORBIDDEN) \<and>
      (pt_ownerId template \<in> {None, Some [], Some userId} \<longrightarrow>
         ensureTemplateAccessible db templateId userId = Inr template)) \<and>
   (\<forall>e. updatePromptTemplate_schema patch \<and>
        ensureTemplateAccessible db (upt_id patch) (user_id user) = Inl e \<longrightarrow>
      updatePromptTemplate patch (Some user) now db = (Inl e, db)) \<and>
   (\<forall>e t. createGeneratedPrompt_schema promptInput \<and> cgp_templateId promptInput = Some t \<and>
        ensureTemplateAccessible db t (user_id user) = Inl e \<longrightarrow>
      createGeneratedPrompt promptInput (Some user) now db = (Inl e, db)) \<and>
   (\<forall>e t. cpj_templateId jobInput = Some t \<and>
        ensureTemplateAccessible db t (user_id user) = Inl e \<longrightarrow>
      createPromptJob jobInput (Some user) now db = (Inl e, db))"
proof -
  have check: "(filter (\<lambda>r. pt_id r = templateId) (PromptTemplates db) = [] \<longrightarrow>
      ensureTemplateAccessible db templateId userId = Inl NOT_FOUND) \<and>
   (\<forall>template rest. filter (\<lambda>r. pt_id r = templateId) (PromptTemplates db) = template # rest \<longrightarrow>
      (pt_ownerId template \<notin> {None, Some [], Some userId} \<longrightarrow>
         ensureTemplateAccessible db templateId userId = Inl FORBIDDEN) \<and>
      (pt_ownerId template \<in> {None, Some [], Some userId} \<longrightarrow>
         ensureTemplateAccessible db templateId userId = Inr template))"
    by (simp add: ensureTemplateAccessible_cases)
  have update: "\<forall>e. updatePromptTemplate_schema patch \<and>
        ensureTemplateAccessible db (upt_id patch) (user_id user) = Inl e \<longrightarrow>
      updatePromptTemplate patch (Some user) now db = (Inl e, db)"
    by (simp add: updatePromptTemplate_def updatePromptTemplate_handler_def requireUser_def)
  have prompt: "\<forall>e t. createGeneratedPrompt_schema promptInput \<and> cgp_templateId promptInput = Some t \<and>
        ensureTemplateAccessible db t (user_id user) = Inl e \<longrightarrow>
      createGeneratedPrompt promptInput (Some user) now db = (Inl e, db)"
    by (simp add: createGeneratedPrompt_def createGeneratedPrompt_handler_def requireUser_def)
  have job: "\<forall>e t. cpj_templateId jobInput = Some t \<and>
        ensureTemplateAccessible db t (user_id user) = Inl e \<longrightarrow>
      createPromptJob jobInput (Some user) now db = (Inl e, db)"
    by (simp add: createPromptJob_def requireUser_def)
  from check update prompt job show ?thesis
    by blast
qed

text \<open>
  C4 as it is stated fails: a caller whose id is the empty string creates a template;
  its owner is not NULL and is not bob, and the check gives the row to bob.
\<close>

theorem ensureTemplateAccessible_counterexample:
  "createPromptTemplate lesson_input (Some \<lparr>user_id = []\<rparr>) 0 empty_db
     = (Inr blank_owner_template, blank_owner_db) \<and>
   filter (\<lambda>r. pt_id r = 1) (PromptTemplates blank_owner_db) = [blank_owner_template] \<and>
   pt_ownerId blank_owner_template \<noteq> None \<and>
   pt_ownerId blank_owner_template \<noteq> Some (user_id bob) \<and>
   ensureTemplateAccessible blank_owner_db 1 (user_id bob) \<noteq> Inl FORBIDDEN \<and>
   ensureTemplateAccessible blank_owner_db 1 (user_id bob) = Inr blank_owner_template"
  by (simp add: createPromptTemplate_def createPromptTemplate_schema_def
      createPromptTemplate_handler_def requireUser_def nextId_def Let_def
      ensureTemplateAccessible_def select_where_def truthy_def
      lesson_input_def blank_owner_template_def blank_owner_db_def empty_db_def bob_def)

theorem ensureTemplateAccessible_contract_witness:
  "ensureTemplateAccessible template_db 2 ''bob'' = Inl NOT_FOUND \<and>
   ensureTemplateAccessible template_db 1 ''bob'' = Inl FORBIDDEN \<and>
   ensureTemplateAccessible template_db 1 ''alice'' = Inr alice_template \<and>
   ensureTemplateAccessible shared_db 1 ''bob'' = Inr shared_template \<and>
   updatePromptTemplate (body_patch 1 ''Hi'') (Some bob) 9 template_db = (Inl FORBIDDEN, template_db) \<and>
   createGeneratedPrompt \<lparr>cgp_templateId = Some 1, cgp_input = None, cgp_promptText = ''Hi'',
       cgp_meta = None\<rparr> (Some bob) 9 template_db = (Inl FORBIDDEN, template_db) \<and>
   createPromptJob \<lparr>cpj_templateId = Some 2, cpj_input = None, cpj_output = None,
       cpj_status = None\<rparr> (Some bob) 9 template_db = (Inl NOT_FOUND, template_db)"
proof -
  let ?prompt = "\<lparr>cgp_templateId = Some 1, cgp_input = None, cgp_promptText = ''Hi'',
       cgp_meta = None\<rparr>"
  let ?job = "\<lparr>cpj_templateId = Some 2, cpj_input = None, cpj_output = None, cpj_status = None\<rparr>"
  have rows: "PromptTemplates template_db = [alice_template]" "pt_id alice_template = 1"
    "pt_ownerId alice_template = Some ''alice''"
    "PromptTemplates shared_db = [shared_template]" "pt_id shared_template = 1"
    "pt_ownerId shared_template = None"
    by (simp_all add: template_db_def alice_template_def shared_db_def shared_template_def
        empty_db_def)
  have schemas: "updatePromptTemplate_schema (body_patch 1 ''Hi'')"
    "createGeneratedPrompt_schema ?prompt" "upt_id (body_patch 1 ''Hi'') = 1"
    by (simp_all add: updatePromptTemplate_schema_def createGeneratedPrompt_schema_def
        body_patch_def)
  from ensureTemplateAccessible_contract [of 2 template_db "''bob''"] rows
  have absent: "ensureTemplateAccessible template_db 2 ''bob'' = Inl NOT_FOUND"
    by simp
  from ensureTemplateAccessible_contract [of 1 template_db "''bob''"] rows
  have forbidden: "ensureTemplateAccessible template_db 1 ''bob'' = Inl FORBIDDEN"
    by simp
  from ensureTemplateAccessible_contract [of 1 template_db "''alice''"] rows
  have own: "ensureTemplateAccessible template_db 1 ''alice'' = Inr alice_template"
    by simp
  from ensureTemplateAccessible_contract [of 1 shared_db "''bob''"] rows
  have shared: "ensureTemplateAccessible shared_db 1 ''bob'' = Inr shared_template"
    by simp
  from ensureTemplateAccessible_contract
    [of 1 template_db "''bob''" "body_patch 1 ''Hi''" bob 9 ?prompt ?job]
    schemas absent forbidden
  have "updatePromptTemplate (body_patch 1 ''Hi'') (Some bob) 9 template_db = (Inl FORBIDDEN, template_db)"
    and "createGeneratedPrompt ?prompt (Some bob) 9 template_db = (Inl FORBIDDEN, template_db)"
    and "createPromptJob ?job (Some bob) 9 template_db = (Inl NOT_FOUND, template_db)"
    by (simp_all add: bob_def)
  with absent forbidden own shared show ?thesis
    by simp
qed

section \<open>Template management: update\<close>

lemma ensureTemplateAccessible_found:
  "ensureTemplateAccessible db templateId userId = Inr template \<Longrightarrow>
     \<exists>rest. filter (\<lambda>r. pt_id r = templateId) (PromptTemplates db) = template # rest"
  by (auto simp add: ensureTemplateAccessible_cases split: list.splits if_splits)

lemma patch_applied_set: "patch_applied patch now r (updatePromptTemplate_set patch now r)"
  by (simp add: patch_applied_def updatePromptTemplate_set_def)

text \<open>What an update of a signed-in caller with a valid input on an accessible template does.\<close>

lemma updatePromptTemplate_run:
  assumes "updatePromptTemplate_schema patch"
    and "filter (\<lambda>r. pt_id r = upt_id patch) (PromptTemplates db) = template # rest"
    and "ensureTemplateAccessible db (upt_id patch) (user_id user) = Inr template"
  shows "updatePromptTemplate patch (Some user) now db =
     (Inr (Some (updatePromptTemplate_set patch now template)),
      db\<lparr>PromptTemplates :=
           map (\<lambda>r. if pt_id r = upt_id patch then updatePromptTemplate_set patch now r else r)
             (PromptTemplates db)\<rparr>)"
  using assms
  by (simp add: updatePromptTemplate_def updatePromptTemplate_handler_def requireUser_def
      Let_def)

lemma updatePromptTemplate_error:
  "updatePromptTemplate patch ctx now db = (Inl e, db') \<Longrightarrow> db' = db"
  by (auto simp add: updatePromptTemplate_def updatePromptTemplate_handler_def Let_def
      split: if_splits sum.splits)

lemma updatePromptTemplate_success:
  assumes "updatePromptTemplate patch ctx now db = (Inr res, db')"
  shows "\<exists>user template rest. ctx = Some user \<and> updatePromptTemplate_schema patch \<and>
      filter (\<lambda>r. pt_id r = upt_id patch) (PromptTemplates db) = template # rest \<and>
      ensureTemplateAccessible db (upt_id patch) (user_id user) = Inr template"
proof -
  from assms have schema: "updatePromptTemplate_schema patch"
    by (auto simp add: updatePromptTemplate_def split: if_splits)
  from assms obtain user where user: "ctx = Some user"
    by (cases ctx) (auto simp add: updatePromptTemplate_def updatePromptTemplate_handler_def
        requireUser_def split: if_splits)
  from assms schema user obtain template
    where "ensureTemplateAccessible db (upt_id patch) (user_id user) = Inr template"
    by (cases "ensureTemplateAccessible db (upt_id patch) (user_id user)")
      (auto simp add: updatePromptTemplate_def updatePromptTemplate_handler_def requireUser_def)
  with schema user ensureTemplateAccessible_found [of db "upt_id patch" "user_id user" template]
  show ?thesis
    by blast
qed

text \<open>
  C6. Without any of \<open>title\<close>, \<open>description\<close>, \<open>template\<close>, \<open>tags\<close> and
  \<open>isActive\<close> the update answers \<open>BAD_REQUEST\<close>. Whenever it fails, with whatever
  error, the database is as it was. Whenever it succeeds, the caller is signed in and
  the check found the template; the table has the same rows in the same places, those
  with another id untouched and those with the id patched: the supplied fields
  overwritten, \<open>updatedAt\<close> stamped, every other column (\<open>id\<close>, \<open>ownerId\<close>,
  \<open>createdAt\<close> and the fields not supplied) as before; nothing else in the database
  changes; and the answer is the first such row, patched.
\<close>

theorem updatePromptTemplate_contract:
  "(upt_title patch = None \<and> upt_description patch = None \<and> upt_template patch = None \<and>
    upt_tags patch = None \<and> upt_isActive patch = None \<longrightarrow>
      updatePromptTemplate patch ctx now db = (Inl BAD_REQUEST, db)) \<and>
   (\<forall>e db'. updatePromptTemplate patch ctx now db = (Inl e, db') \<longrightarrow> db' = db) \<and>
   (\<forall>res db'. updatePromptTemplate patch ctx now db = (Inr res, db') \<longrightarrow>
      db' = db\<lparr>PromptTemplates := PromptTemplates db'\<rparr> \<and>
      length (PromptTemplates db') = length (PromptTemplates db) \<and>
      (\<forall>k < length (PromptTemplates db).
         (pt_id (PromptTemplates db ! k) \<noteq> upt_id patch \<longrightarrow>
            PromptTemplates db' ! k = PromptTemplates db ! k) \<and>
         (pt_id (PromptTemplates db ! k) = upt_id patch \<longrightarrow>
            patch_applied patch now (PromptTemplates db ! k) (PromptTemplates db' ! k))) \<and>
      (\<exists>user template rest updated. ctx = Some user \<and>
         ensureTemplateAccessible db (upt_id patch) (user_id user) = Inr template \<and>
         filter (\<lambda>r. pt_id r = upt_id patch) (PromptTemplates db) = template # rest \<and>
         res = Some updated \<and> patch_applied patch now template updated))"
proof (intro conjI allI impI)
  assume "upt_title patch = None \<and> upt_description patch = None \<and> upt_template patch = None \<and>
    upt_tags patch = None \<and> upt_isActive patch = None"
  then show "updatePromptTemplate patch ctx now db = (Inl BAD_REQUEST, db)"
    by (simp add: updatePromptTemplate_def updatePromptTemplate_schema_def)
next
  fix e db'
  assume "updatePromptTemplate patch ctx now db = (Inl e, db')"
  then show "db' = db"
    by (rule updatePromptTemplate_error)
next
  fix res db'
  assume ok: "updatePromptTemplate patch ctx now db = (Inr res, db')"
  from updatePromptTemplate_success [OF ok] obtain user template rest
    where found: "ctx = Some user" "updatePromptTemplate_schema patch"
      "filter (\<lambda>r. pt_id r = upt_id patch) (PromptTemplates db) = template # rest"
      "ensureTemplateAccessible db (upt_id patch) (user_id user) = Inr template"
    by blast
  from updatePromptTemplate_run [OF found(2) found(3) found(4), of now] ok found(1)
  have res: "res = Some (updatePromptTemplate_set patch now template)"
    and db': "db' = db\<lparr>PromptTemplates :=
           map (\<lambda>r. if pt_id r = upt_id patch then updatePromptTemplate_set patch now r else r)
             (PromptTemplates db)\<rparr>"
    by simp_all
  from db' show "db' = db\<lparr>PromptTemplates := PromptTemplates db'\<rparr>"
    by simp
  from db' show "length (PromptTemplates db') = length (PromptTemplates db)"
    by simp
  from found res patch_applied_set [of patch now template]
  show "\<exists>user template rest updated. ctx = Some user \<and>
         ensureTemplateAccessible db (upt_id patch) (user_id user) = Inr template \<and>
         filter (\<lambda>r. pt_id r = upt_id patch) (PromptTemplates db) = template # rest \<and>
         res = Some updated \<and> patch_applied patch now template updated"
    by blast
  fix k
  assume k: "k < length (PromptTemplates db)"
  {
    assume "pt_id (PromptTemplates db ! k) \<noteq> upt_id patch"
    with k db' show "PromptTemplates db' ! k = PromptTemplates db ! k"
      by simp
  next
    assume "pt_id (PromptTemplates db ! k) = upt_id patch"
    with k db' patch_applied_set [of patch now "PromptTemplates db ! k"]
    show "patch_applied patch now (PromptTemplates db ! k) (PromptTemplates db' ! k)"
      by simp
  }
qed

theorem updatePromptTemplate_contract_witness:
  "updatePromptTemplate (empty_patch 1) (Some alice) 9 library_db = (Inl BAD_REQUEST, library_db) \<and>
   updatePromptTemplate (body_patch 1 ''Hi'') (Some bob) 9 library_db = (Inl FORBIDDEN, library_db) \<and>
   updatePromptTemplate (body_patch 1 ''Hi'') (Some alice) 9 library_db
     = (Inr (Some (alice_template\<lparr>pt_template := ''Hi'', pt_updatedAt := 9\<rparr>)),
        library_db\<lparr>PromptTemplates :=
          [alice_template\<lparr>pt_template := ''Hi'', pt_updatedAt := 9\<rparr>, second_template]\<rparr>) \<and>
   patch_applied (body_patch 1 ''Hi'') 9 alice_template
     (alice_template\<lparr>pt_template := ''Hi'', pt_updatedAt := 9\<rparr>) \<and>
   pt_title (alice_template\<lparr>pt_template := ''Hi'', pt_updatedAt := 9\<rparr>) = ''Lesson intro'' \<and>
   pt_ownerId (alice_template\<lparr>pt_template := ''Hi'', pt_updatedAt := 9\<rparr>) = Some ''alice'' \<and>
   pt_createdAt (alice_template\<lparr>pt_template := ''Hi'', pt_updatedAt := 9\<rparr>) = 5"
proof -
  let ?updated = "alice_template\<lparr>pt_template := ''Hi'', pt_updatedAt := 9\<rparr>"
  let ?after = "library_db\<lparr>PromptTemplates := [?updated, second_template]\<rparr>"
  have unsupplied: "upt_title (empty_patch 1) = None \<and> upt_description (empty_patch 1) = None \<and>
      upt_template (empty_patch 1) = None \<and> upt_tags (empty_patch 1) = None \<and>
      upt_isActive (empty_patch 1) = None"
    by (simp add: empty_patch_def)
  from updatePromptTemplate_contract [of "empty_patch 1" "Some alice" 9 library_db] unsupplied
  have rejected: "updatePromptTemplate (empty_patch 1) (Some alice) 9 library_db
      = (Inl BAD_REQUEST, library_db)"
    by blast
  have "fst (updatePromptTemplate (body_patch 1 ''Hi'') (Some bob) 9 library_db) = Inl FORBIDDEN"
    by (simp add: updatePromptTemplate_def updatePromptTemplate_schema_def
        updatePromptTemplate_handler_def requireUser_def ensureTemplateAccessible_def
        truthy_def body_patch_def library_db_def alice_template_def second_template_def
        empty_db_def bob_def)
  with updatePromptTemplate_contract [of "body_patch 1 ''Hi''" "Some bob" 9 library_db]
  have forbidden: "updatePromptTemplate (body_patch 1 ''Hi'') (Some bob) 9 library_db
      = (Inl FORBIDDEN, library_db)"
    by (metis prod.collapse)
  have run: "updatePromptTemplate (body_patch 1 ''Hi'') (Some alice) 9 library_db
     = (Inr (Some ?updated), ?after)"
    by (simp add: updatePromptTemplate_def updatePromptTemplate_schema_def
        updatePromptTemplate_handler_def requireUser_def ensureTemplateAccessible_def
        truthy_def body_patch_def library_db_def alice_template_def second_template_def
        empty_db_def alice_def updatePromptTemplate_set_def)
  have rows: "length (PromptTemplates library_db) = 2"
    "PromptTemplates library_db ! 0 = alice_template"
    "PromptTemplates library_db ! 1 = second_template"
    "PromptTemplates ?after ! 0 = ?updated" "PromptTemplates ?after ! 1 = second_template"
    "pt_id alice_template = upt_id (body_patch 1 ''Hi'')"
    "pt_id second_template \<noteq> upt_id (body_patch 1 ''Hi'')"
    by (simp_all add: library_db_def alice_template_def second_template_def body_patch_def)
  from updatePromptTemplate_contract [of "body_patch 1 ''Hi''" "Some alice" 9 library_db] run
  have each: "\<forall>k < length (PromptTemplates library_db).
      (pt_id (PromptTemplates library_db ! k) \<noteq> upt_id (body_patch 1 ''Hi'') \<longrightarrow>
         PromptTemplates ?after ! k = PromptTemplates library_db ! k) \<and>
      (pt_id (PromptTemplates library_db ! k) = upt_id (body_patch 1 ''Hi'') \<longrightarrow>
         patch_applied (body_patch 1 ''Hi'') 9 (PromptTemplates library_db ! k)
           (PromptTemplates ?after ! k))"
    by blast
  from each have "(pt_id (PromptTemplates library_db ! 0) = upt_id (body_patch 1 ''Hi'') \<longrightarrow>
         patch_applied (body_patch 1 ''Hi'') 9 (PromptTemplates library_db ! 0)
           (PromptTemplates ?after ! 0))"
    using rows(1) by (metis zero_less_numeral)
  with rows have applied: "patch_applied (body_patch 1 ''Hi'') 9 alice_template ?updated"
    by simp
  then have kept: "pt_title ?updated = pt_title alice_template"
    "pt_ownerId ?updated = pt_ownerId alice_template"
    "pt_createdAt ?updated = pt_createdAt alice_template"
    by (simp_all add: patch_applied_def body_patch_def)
  have "pt_title alice_template = ''Lesson intro''" "pt_ownerId alice_template = Some ''alice''"
    "pt_createdAt alice_template = 5"
    by (simp_all add: alice_template_def)
  with kept have "pt_title ?updated = ''Lesson intro''" "pt_ownerId ?updated = Some ''alice''"
    "pt_createdAt ?updated = 5"
    by simp_all
  with rejected forbidden run applied show ?thesis
    by simp
qed

text \<open>
  C9. The schema of the update accepts a patch whose \<open>template\<close> is the empty string,
  which the schema of the creation rejects. A signed-in caller who sends that patch for
  a template the check gives them gets the row back with an empty body, and the table
  then holds a row with an empty body: that every template has a non-empty body holds
  after the creations and not after the updates.
\<close>

theorem updatePromptTemplate_allows_empty_body:
  "updatePromptTemplate_schema (body_patch templateId []) \<and>
   \<not> createPromptTemplate_schema (input\<lparr>cpt_template := []\<rparr>) \<and>
   (\<forall>template. ensureTemplateAccessible db templateId (user_id user) = Inr template \<longrightarrow>
      (\<exists>updated db'.
         updatePromptTemplate (body_patch templateId []) (Some user) now db = (Inr (Some updated), db') \<and>
         pt_id updated = templateId \<and> pt_template updated = [] \<and>
         updated \<in> set (PromptTemplates db')))"
proof (intro conjI allI impI)
  show schema: "updatePromptTemplate_schema (body_patch templateId [])"
    by (simp add: updatePromptTemplate_schema_def body_patch_def)
  show "\<not> createPromptTemplate_schema (input\<lparr>cpt_template := []\<rparr>)"
    by (simp add: createPromptTemplate_schema_def)
  fix template
  assume "ensureTemplateAccessible db templateId (user_id user) = Inr template"
  then have accessible: "ensureTemplateAccessible db (upt_id (body_patch templateId [])) (user_id user)
      = Inr template"
    by (simp add: body_patch_def)
  from ensureTemplateAccessible_found [OF accessible] obtain rest
    where found: "filter (\<lambda>r. pt_id r = upt_id (body_patch templateId [])) (PromptTemplates db)
      = template # rest"
    by blast
  then have "template \<in> set (filter (\<lambda>r. pt_id r = upt_id (body_patch templateId []))
      (PromptTemplates db))"
    by simp
  then have member: "template \<in> set (PromptTemplates db)" and id: "pt_id template = templateId"
    by (simp_all add: body_patch_def)
  let ?updated = "updatePromptTemplate_set (body_patch templateId []) now template"
  have "pt_id ?updated = templateId" "pt_template ?updated = []"
    using id by (simp_all add: updatePromptTemplate_set_def body_patch_def)
  moreover have "?updated \<in> set (map (\<lambda>r. if pt_id r = upt_id (body_patch templateId [])
        then updatePromptTemplate_set (body_patch templateId []) now r else r) (PromptTemplates db))"
    using member id by (force simp add: body_patch_def)
  ultimately show "\<exists>updated db'.
         updatePromptTemplate (body_patch templateId []) (Some user) now db = (Inr (Some updated), db') \<and>
         pt_id updated = templateId \<and> pt_template updated = [] \<and>
         updated \<in> set (PromptTemplates db')"
    using updatePromptTemplate_run [OF schema found accessible, of now]
    by simp
qed

theorem updatePromptTemplate_allows_empty_body_witness:
  "createPromptTemplate lesson_input (Some alice) 5 empty_db = (Inr alice_template, template_db) \<and>
   pt_template alice_template \<noteq> [] \<and>
   ensureTemplateAccessible template_db 1 (user_id alice) = Inr alice_template \<and>
   (\<exists>updated db'.
      updatePromptTemplate (body_patch 1 []) (Some alice) 9 template_db = (Inr (Some updated), db') \<and>
      pt_id updated = 1 \<and> pt_template updated = [] \<and> updated \<in> set (PromptTemplates db'))"
proof -
  have created: "createPromptTemplate lesson_input (Some alice) 5 empty_db
      = (Inr alice_template, template_db)"
    by (simp add: createPromptTemplate_def createPromptTemplate_schema_def
        createPromptTemplate_handler_def requireUser_def nextId_def Let_def
        lesson_input_def alice_template_def template_db_def empty_db_def alice_def)
  have body: "pt_template alice_template \<noteq> []"
    by (simp add: alice_template_def)
  have accessible: "ensureTemplateAccessible template_db 1 (user_id alice) = Inr alice_template"
    by (simp add: ensureTemplateAccessible_def truthy_def template_db_def alice_template_def
        empty_db_def alice_def)
  with updatePromptTemplate_allows_empty_body [of 1 lesson_input template_db alice 9]
  have "\<exists>updated db'.
      updatePromptTemplate (body_patch 1 []) (Some alice) 9 template_db = (Inr (Some updated), db') \<and>
      pt_id updated = 1 \<and> pt_template updated = [] \<and> updated \<in> set (PromptTemplates db')"
    by blast
  with created body accessible show ?thesis
    by blast
qed

section \<open>Generated prompts and jobs\<close>

lemma listGeneratedPrompts_all:
  assumes "input = None \<or> (\<exists>i. input = Some i \<and> lgp_templateId i = None)"
  shows "listGeneratedPrompts input (Some user) db =
     (Inr (listing (filter (\<lambda>p. gp_userId p = Some (user_id user)) (GeneratedPrompts db))), db)"
  using assms
  by (auto simp add: listGeneratedPrompts_def listGeneratedPrompts_filters_def requireUser_def
      select_where_def)

lemma listGeneratedPrompts_by_template:
  assumes "input = Some i" and "lgp_templateId i = Some t"
  shows "listGeneratedPrompts input (Some user) db =
     (Inr (listing (filter (\<lambda>p. gp_userId p = Some (user_id user) \<and> gp_templateId p = Some t)
        (GeneratedPrompts db))), db)"
  using assms
  by (simp add: listGeneratedPrompts_def listGeneratedPrompts_filters_def requireUser_def
      select_where_def)

text \<open>
  C5. Every row \<open>listGeneratedPrompts\<close> returns to a signed-in caller has the caller as
  its user, with or without a \<open>templateId\<close>. Without one, the items are all the
  caller's rows; with one, all the caller's rows of that template; in both cases the
  whole of them, in one answer whose total is their number.
\<close>

theorem listGeneratedPrompts_scoped:
  "(\<forall>items n db'. listGeneratedPrompts input (Some user) db = (Inr (items, n), db') \<longrightarrow>
      (\<forall>p \<in> set items. gp_userId p = Some (user_id user))) \<and>
   (input = None \<or> (\<exists>i. input = Some i \<and> lgp_templateId i = None) \<longrightarrow>
      listGeneratedPrompts input (Some user) db =
        (Inr (listing (filter (\<lambda>p. gp_userId p = Some (user_id user)) (GeneratedPrompts db))), db)) \<and>
   (\<forall>i t. input = Some i \<and> lgp_templateId i = Some t \<longrightarrow>
      listGeneratedPrompts input (Some user) db =
        (Inr (listing (filter (\<lambda>p. gp_userId p = Some (user_id user) \<and> gp_templateId p = Some t)
           (GeneratedPrompts db))), db))"
proof (intro conjI allI impI)
  assume "input = None \<or> (\<exists>i. input = Some i \<and> lgp_templateId i = None)"
  then show "listGeneratedPrompts input (Some user) db =
        (Inr (listing (filter (\<lambda>p. gp_userId p = Some (user_id user)) (GeneratedPrompts db))), db)"
    by (rule listGeneratedPrompts_all)
next
  fix i t
  assume "input = Some i \<and> lgp_templateId i = Some t"
  then show "listGeneratedPrompts input (Some user) db =
        (Inr (listing (filter (\<lambda>p. gp_userId p = Some (user_id user) \<and> gp_templateId p = Some t)
           (GeneratedPrompts db))), db)"
    by (simp add: listGeneratedPrompts_by_template)
next
  fix items n db'
  assume listed: "listGeneratedPrompts input (Some user) db = (Inr (items, n), db')"
  show "\<forall>p \<in> set items. gp_userId p = Some (user_id user)"
  proof (cases "input = None \<or> (\<exists>i. input = Some i \<and> lgp_templateId i = None)")
    case True
    from listGeneratedPrompts_all [OF True, of user db] listed show ?thesis
      by (auto simp add: listing_def)
  next
    case False
    then obtain i t where "input = Some i" and "lgp_templateId i = Some t"
      by (cases input) auto
    from listGeneratedPrompts_by_template [OF this, of user db] listed show ?thesis
      by (auto simp add: listing_def)
  qed
qed

theorem listGeneratedPrompts_scoped_witness:
  "listGeneratedPrompts None (Some alice) mixed_db
     = (Inr ([alice_prompt, alice_template_prompt], 2), mixed_db) \<and>
   listGeneratedPrompts (Some \<lparr>lgp_templateId = Some 1\<rparr>) (Some alice) mixed_db
     = (Inr ([alice_template_prompt], 1), mixed_db) \<and>
   gp_userId alice_prompt = Some (user_id alice) \<and>
   gp_userId alice_template_prompt = Some (user_id alice)"
proof -
  have rows: "filter (\<lambda>p. gp_userId p = Some (user_id alice)) (GeneratedPrompts mixed_db)
      = [alice_prompt, alice_template_prompt]"
    "filter (\<lambda>p. gp_userId p = Some (user_id alice) \<and> gp_templateId p = Some 1)
      (GeneratedPrompts mixed_db) = [alice_template_prompt]"
    by (simp_all add: mixed_db_def alice_prompt_def bob_prompt_def alice_template_prompt_def
        userless_prompt_def empty_db_def alice_def)
  from listGeneratedPrompts_scoped [of None alice mixed_db] rows
  have all: "listGeneratedPrompts None (Some alice) mixed_db
     = (Inr ([alice_prompt, alice_template_prompt], 2), mixed_db)"
    by (simp add: listing_def)
  from listGeneratedPrompts_scoped [of "Some \<lparr>lgp_templateId = Some 1\<rparr>" alice mixed_db] rows
  have one: "listGeneratedPrompts (Some \<lparr>lgp_templateId = Some 1\<rparr>) (Some alice) mixed_db
     = (Inr ([alice_template_prompt], 1), mixed_db)"
    by (simp add: listing_def)
  from listGeneratedPrompts_scoped [of None alice mixed_db] all
  have "\<forall>p \<in> set [alice_prompt, alice_template_prompt]. gp_userId p = Some (user_id alice)"
    by blast
  with all one show ?thesis
    by simp
qed

lemma createGeneratedPrompt_success:
  assumes "createGeneratedPrompt promptInput ctx now db = (Inr p, db')"
  shows "(\<exists>user. ctx = Some user \<and> gp_userId p = Some (user_id user)) \<and>
     GeneratedPrompts db' = GeneratedPrompts db @ [p]"
proof (cases ctx)
  case None
  with assms show ?thesis
    by (simp add: createGeneratedPrompt_def createGeneratedPrompt_handler_def requireUser_def
        split: if_splits)
next
  case (Some user)
  with assms show ?thesis
    by (auto simp add: createGeneratedPrompt_def createGeneratedPrompt_handler_def
        requireUser_def insertGeneratedPrompt_def Let_def
        split: if_splits option.splits sum.splits)
qed

lemma createPromptJob_success:
  assumes "createPromptJob jobInput ctx now db = (Inr j, db')"
  shows "(\<exists>user. ctx = Some user \<and> job_userId j = Some (user_id user)) \<and>
     PromptJobs db' = PromptJobs db @ [j]"
proof (cases ctx)
  case None
  with assms show ?thesis
    by (simp add: createPromptJob_def requireUser_def)
next
  case (Some user)
  with assms show ?thesis
    by (auto simp add: createPromptJob_def requireUser_def insertPromptJob_def Let_def
        split: option.splits sum.splits)
qed

lemma listPromptJobs_items:
  "listPromptJobs (Some user) db =
     (Inr (listing (filter (\<lambda>j. job_userId j = Some (user_id user)) (PromptJobs db))), db)"
  by (simp add: listPromptJobs_def requireUser_def select_where_def)

text \<open>
  C10. Whenever \<open>createGeneratedPrompt\<close> or \<open>createPromptJob\<close> succeeds, the caller is
  signed in, the row returned is the one row appended to the table, and its \<open>userId\<close>
  is the caller's id, so not NULL. In a database built by the exposed actions from the
  empty one, every generated prompt and every job therefore has a user, and is among
  the items that \<open>listGeneratedPrompts\<close> (called without a \<open>templateId\<close>) or
  \<open>listPromptJobs\<close> returns to that user.
\<close>

theorem created_rows_carry_caller:
  "(\<forall>p db'. createGeneratedPrompt promptInput ctx now db = (Inr p, db') \<longrightarrow>
      (\<exists>user. ctx = Some user \<and> gp_userId p = Some (user_id user)) \<and>
      GeneratedPrompts db' = GeneratedPrompts db @ [p]) \<and>
   (\<forall>j db'. createPromptJob jobInput ctx now db = (Inr j, db') \<longrightarrow>
      (\<exists>user. ctx = Some user \<and> job_userId j = Some (user_id user)) \<and>
      PromptJobs db' = PromptJobs db @ [j]) \<and>
   (reachable db \<longrightarrow>
      (\<forall>p \<in> set (GeneratedPrompts db). \<exists>user items n.
         gp_userId p = Some (user_id user) \<and>
         listGeneratedPrompts None (Some user) db = (Inr (items, n), db) \<and> p \<in> set items) \<and>
      (\<forall>j \<in> set (PromptJobs db). \<exists>user items n.
         job_userId j = Some (user_id user) \<and>
         listPromptJobs (Some user) db = (Inr (items, n), db) \<and> j \<in> set items))"
proof (intro conjI allI impI ballI)
  fix p db'
  assume "createGeneratedPrompt promptInput ctx now db = (Inr p, db')"
  from createGeneratedPrompt_success [OF this]
  show "\<exists>user. ctx = Some user \<and> gp_userId p = Some (user_id user)"
    and "GeneratedPrompts db' = GeneratedPrompts db @ [p]"
    by simp_all
next
  fix j db'
  assume "createPromptJob jobInput ctx now db = (Inr j, db')"
  from createPromptJob_success [OF this]
  show "\<exists>user. ctx = Some user \<and> job_userId j = Some (user_id user)"
    and "PromptJobs db' = PromptJobs db @ [j]"
    by simp_all
next
  fix p
  assume "reachable db" and stored: "p \<in> set (GeneratedPrompts db)"
  from reachable_users_set [OF \<open>reachable db\<close>] stored
  obtain userId where userId: "gp_userId p = Some userId"
    by (auto simp add: users_set_def)
  let ?user = "\<lparr>user_id = userId\<rparr>"
  let ?items = "filter (\<lambda>p. gp_userId p = Some (user_id ?user)) (GeneratedPrompts db)"
  have "listGeneratedPrompts None (Some ?user) db = (Inr (?items, length ?items), db)"
    using listGeneratedPrompts_all [of None ?user db] by (simp add: listing_def)
  moreover from stored userId have "p \<in> set ?items"
    by simp
  moreover from userId have "gp_userId p = Some (user_id ?user)"
    by simp
  ultimately show "\<exists>user items n.
         gp_userId p = Some (user_id user) \<and>
         listGeneratedPrompts None (Some user) db = (Inr (items, n), db) \<and> p \<in> set items"
    by blast
next
  fix j
  assume "reachable db" and stored: "j \<in> set (PromptJobs db)"
  from reachable_users_set [OF \<open>reachable db\<close>] stored
  obtain userId where userId: "job_userId j = Some userId"
    by (auto simp add: users_set_def)
  let ?user = "\<lparr>user_id = userId\<rparr>"
  let ?items = "filter (\<lambda>j. job_userId j = Some (user_id ?user)) (PromptJobs db)"
  have "listPromptJobs (Some ?user) db = (Inr (?items, length ?items), db)"
    using listPromptJobs_items [of ?user db] by (simp add: listing_def)
  moreover from stored userId have "j \<in> set ?items"
    by simp
  moreover from userId have "job_userId j = Some (user_id ?user)"
    by simp
  ultimately show "\<exists>user items n.
         job_userId j = Some (user_id user) \<and>
         listPromptJobs (Some user) db = (Inr (items, n), db) \<and> j \<in> set items"
    by blast
qed

theorem created_rows_carry_caller_witness:
  "createGeneratedPrompt tides_input (Some alice) 10 empty_db = (Inr alice_prompt, prompt_db) \<and>
   createPromptJob job_input (Some alice) 11 prompt_db = (Inr alice_job, history_db) \<and>
   gp_userId alice_prompt = Some (user_id alice) \<and>
   job_userId alice_job = Some (user_id alice) \<and>
   reachable history_db \<and>
   GeneratedPrompts history_db = [alice_prompt] \<and> PromptJobs history_db = [alice_job] \<and>
   (\<exists>user items n. gp_userId alice_prompt = Some (user_id user) \<and>
      listGeneratedPrompts None (Some user) history_db = (Inr (items, n), history_db) \<and>
      alice_prompt \<in> set items) \<and>
   (\<exists>user items n. job_userId alice_job = Some (user_id user) \<and>
      listPromptJobs (Some user) history_db = (Inr (items, n), history_db) \<and>
      alice_job \<in> set items)"
proof -
  have prompt: "createGeneratedPrompt tides_input (Some alice) 10 empty_db
      = (Inr alice_prompt, prompt_db)"
    by (simp add: createGeneratedPrompt_def createGeneratedPrompt_schema_def
        createGeneratedPrompt_handler_def requireUser_def insertGeneratedPrompt_def nextId_def
        Let_def tides_input_def alice_prompt_def prompt_db_def empty_db_def alice_def)
  have job: "createPromptJob job_input (Some alice) 11 prompt_db = (Inr alice_job, history_db)"
    by (simp add: createPromptJob_def requireUser_def insertPromptJob_def nextId_def Let_def
        job_input_def alice_job_def history_db_def prompt_db_def empty_db_def alice_def)
  have "reachable (snd (createGeneratedPrompt tides_input (Some alice) 10 empty_db))"
    by (rule reachable.createGeneratedPrompt [OF reachable.start])
  then have "reachable prompt_db"
    by (simp add: prompt)
  then have "reachable (snd (createPromptJob job_input (Some alice) 11 prompt_db))"
    by (rule reachable.createPromptJob)
  then have history: "reachable history_db"
    by (simp add: job)
  have tables: "GeneratedPrompts history_db = [alice_prompt]" "PromptJobs history_db = [alice_job]"
    by (simp_all add: history_db_def prompt_db_def empty_db_def)
  from created_rows_carry_caller [of tides_input "Some alice" 10 empty_db job_input] prompt
  have "gp_userId alice_prompt = Some (user_id alice)"
    by auto
  moreover
  from created_rows_carry_caller [of tides_input "Some alice" 11 prompt_db job_input] job
  have "job_userId alice_job = Some (user_id alice)"
    by auto
  moreover
  from created_rows_carry_caller [of tides_input "Some alice" 11 history_db job_input] history tables
  have "\<exists>user items n. gp_userId alice_prompt = Some (user_id user) \<and>
      listGeneratedPrompts None (Some user) history_db = (Inr (items, n), history_db) \<and>
      alice_prompt \<in> set items"
    and "\<exists>user items n. job_userId alice_job = Some (user_id user) \<and>
      listPromptJobs (Some user) history_db = (Inr (items, n), history_db) \<and>
      alice_job \<in> set items"
    by simp_all
  ultimately show ?thesis
    using prompt job history tables by simp
qed

end
